theory Spec2Isabelle
  imports Complex_Main
begin

section \<open>ScatterPilot: conversational invoice extraction\<close>

text \<open>
  A shallow embedding of the conversation handler
  (\<^verbatim>\<open>functions/bedrock/conversation.py\<close>), the Bedrock client's extractor and
  validator (\<^verbatim>\<open>layers/common/common/bedrock_client.py\<close>), the pydantic models
  (\<^verbatim>\<open>models.py\<close>), the store helper (\<^verbatim>\<open>dynamodb_helper.py\<close>) and the
  request utilities (\<^verbatim>\<open>security.py\<close>).

  Python exceptions are values of \<open>exn\<close>; a function that may raise returns
  \<open>exn + 'a\<close>. Strings are \<open>char list\<close>, one \<open>char\<close> per code point (the model
  covers the code points a HOL \<open>char\<close> can name). A \<open>Decimal\<close> is an exact rational:
  the 28-digit rounding of Python's decimal context is not modelled.
\<close>

subsection \<open>Exceptions\<close>

datatype exn =
    KeyError string
  | ValueError
  | ValidationError
  | JSONDecodeError
  | TypeError
  | AttributeError
  | InvalidOperation
  | OverflowError
  | InputValidationError
  | DynamoDBException
  | BedrockException
  | EndpointConnectionError

text \<open>
  \<open>except ValueError\<close> also catches pydantic's \<open>ValidationError\<close> and
  \<open>json.JSONDecodeError\<close>, which subclass it.
\<close>

fun is_ValueError :: "exn \<Rightarrow> bool" where
  "is_ValueError ValueError = True"
| "is_ValueError ValidationError = True"
| "is_ValueError JSONDecodeError = True"
| "is_ValueError _ = False"

definition bind_exn :: "exn + 'a \<Rightarrow> ('a \<Rightarrow> exn + 'b) \<Rightarrow> exn + 'b" where
  "bind_exn m f = (case m of Inl e \<Rightarrow> Inl e | Inr x \<Rightarrow> f x)"

subsection \<open>JSON values and dictionaries\<close>

text \<open>
  What \<open>json.loads\<close> returns: \<open>None\<close>, \<open>bool\<close>, \<open>int\<close>, \<open>float\<close> (a finite one,
  as the rational it prints), \<open>str\<close>, \<open>list\<close> and \<open>dict\<close>. A dict keeps its pairs
  in the order of the text; a key written twice has its last value.
\<close>

datatype json =
    JNull
  | JBool bool
  | JInt int
  | JFloat rat
  | JStr string
  | JArr "json list"
  | JObj "(string \<times> json) list"

type_synonym dict = "(string \<times> json) list"

definition dict_get :: "dict \<Rightarrow> string \<Rightarrow> json option" where
  "dict_get d k = map_of (rev d) k"

text \<open>\<open>x.get(k, default)\<close>: only a dict has the method.\<close>

definition py_get :: "json \<Rightarrow> string \<Rightarrow> json \<Rightarrow> exn + json" where
  "py_get x k dflt =
     (case x of
        JObj d \<Rightarrow> (case dict_get d k of None \<Rightarrow> Inr dflt | Some v \<Rightarrow> Inr v)
      | _ \<Rightarrow> Inl AttributeError)"

text \<open>
  \<open>x[k]\<close> with a string key: a dict raises \<open>KeyError\<close> on a missing key, every
  other JSON value raises \<open>TypeError\<close>.
\<close>

definition subscript :: "json \<Rightarrow> string \<Rightarrow> exn + json" where
  "subscript x k =
     (case x of
        JObj d \<Rightarrow> (case dict_get d k of None \<Rightarrow> Inl (KeyError k) | Some v \<Rightarrow> Inr v)
      | _ \<Rightarrow> Inl TypeError)"

text \<open>
  \<open>for item in x\<close>: a list yields its elements, a dict its keys, a string its
  characters; nothing else is iterable.
\<close>

definition iterate :: "json \<Rightarrow> exn + json list" where
  "iterate x =
     (case x of
        JArr xs \<Rightarrow> Inr xs
      | JObj d \<Rightarrow> Inr (map (\<lambda>kv. JStr (fst kv)) d)
      | JStr s \<Rightarrow> Inr (map (\<lambda>c. JStr [c]) s)
      | _ \<Rightarrow> Inl TypeError)"

subsection \<open>Strings\<close>

text \<open>The characters \<open>str.isspace\<close> accepts, among those below 256.\<close>

definition isspace :: "char \<Rightarrow> bool" where
  "isspace c =
     (let n = (of_char c :: nat)
      in (9 \<le> n \<and> n \<le> 13) \<or> (28 \<le> n \<and> n \<le> 32) \<or> n = 133 \<or> n = 160)"

definition lstrip :: "string \<Rightarrow> string" where
  "lstrip s = dropWhile isspace s"

definition rstrip :: "string \<Rightarrow> string" where
  "rstrip s = rev (dropWhile isspace (rev s))"

definition strip :: "string \<Rightarrow> string" where
  "strip s = rstrip (lstrip s)"

definition startswith :: "string \<Rightarrow> string \<Rightarrow> bool" where
  "startswith s p = (take (length p) s = p)"

definition endswith :: "string \<Rightarrow> string \<Rightarrow> bool" where
  "endswith s p = (length p \<le> length s \<and> drop (length s - length p) s = p)"

definition isdigit :: "char \<Rightarrow> bool" where
  "isdigit c = (let n = (of_char c :: nat) in 48 \<le> n \<and> n \<le> 57)"

definition digit_val :: "char \<Rightarrow> nat" where
  "digit_val c = of_char c - 48"

definition digits_val :: "string \<Rightarrow> nat" where
  "digits_val ds = foldl (\<lambda>a c. 10 * a + digit_val c) 0 ds"

definition lower :: "char \<Rightarrow> char" where
  "lower c = (let n = (of_char c :: nat) in if 65 \<le> n \<and> n \<le> 90 then char_of (n + 32) else c)"

subsection \<open>Calendar dates\<close>

text \<open>
  A \<open>datetime.date\<close> is its proleptic Gregorian ordinal (\<open>date.toordinal()\<close>):
  \<open>date.min\<close> is 1 (0001-01-01) and \<open>date.max\<close> is 3652059 (9999-12-31).
  Comparison of dates is comparison of ordinals.
\<close>

type_synonym date = int

definition MAXORDINAL :: int where
  "MAXORDINAL = 3652059"

definition is_leap :: "int \<Rightarrow> bool" where
  "is_leap y = (y mod 4 = 0 \<and> (y mod 100 \<noteq> 0 \<or> y mod 400 = 0))"

definition days_before_year :: "int \<Rightarrow> int" where
  "days_before_year y = (y - 1) * 365 + (y - 1) div 4 - (y - 1) div 100 + (y - 1) div 400"

definition days_in_month :: "int \<Rightarrow> int \<Rightarrow> int" where
  "days_in_month y m =
     (if m = 2 then (if is_leap y then 29 else 28)
      else if m = 4 \<or> m = 6 \<or> m = 9 \<or> m = 11 then 30 else 31)"

definition days_before_month :: "int \<Rightarrow> int \<Rightarrow> int" where
  "days_before_month y m =
     [0, 31, 59, 90, 120, 151, 181, 212, 243, 273, 304, 334] ! nat (m - 1)
       + (if m > 2 \<and> is_leap y then 1 else 0)"

definition ymd2ord :: "int \<Rightarrow> int \<Rightarrow> int \<Rightarrow> date" where
  "ymd2ord y m d = days_before_year y + days_before_month y m + d"

text \<open>
  \<open>date.fromisoformat(x)\<close>: \<open>TypeError\<close> unless \<open>x\<close> is a string, \<open>ValueError\<close>
  unless it reads \<open>YYYY-MM-DD\<close> and names a day of the calendar (the format every
  Python version accepts; the further ISO 8601 spellings Python 3.11 added are not
  modelled).
\<close>

definition date_fromisoformat :: "json \<Rightarrow> exn + date" where
  "date_fromisoformat x =
     (case x of
        JStr s \<Rightarrow>
          (if length s = 10 \<and> s ! 4 = CHR ''-'' \<and> s ! 7 = CHR ''-''
               \<and> list_all isdigit (take 4 s) \<and> list_all isdigit (take 2 (drop 5 s))
               \<and> list_all isdigit (drop 8 s)
           then
             (let y = int (digits_val (take 4 s));
                  m = int (digits_val (take 2 (drop 5 s)));
                  d = int (digits_val (drop 8 s))
              in if 1 \<le> y \<and> 1 \<le> m \<and> m \<le> 12 \<and> 1 \<le> d \<and> d \<le> days_in_month y m
                 then Inr (ymd2ord y m d) else Inl ValueError)
           else Inl ValueError)
      | _ \<Rightarrow> Inl TypeError)"

text \<open>\<open>d + timedelta(days=n)\<close> raises \<open>OverflowError\<close> outside \<open>date.min .. date.max\<close>.\<close>

definition date_add_days :: "date \<Rightarrow> int \<Rightarrow> exn + date" where
  "date_add_days d n =
     (if 1 \<le> d + n \<and> d + n \<le> MAXORDINAL then Inr (d + n) else Inl OverflowError)"

subsection \<open>Decimals\<close>

text \<open>
  A \<open>Decimal\<close> is a finite number or one of the special values (infinities, NaNs),
  which pydantic refuses in every field of the models.
\<close>

datatype Decimal = Finite rat | Special

text \<open>
  \<open>Decimal(s)\<close> for a string: surrounding whitespace and underscores are dropped;
  then an optional sign and either digits with an optional point and exponent, or
  \<open>Inf\<close>, \<open>Infinity\<close>, \<open>NaN\<close>, \<open>sNaN\<close> (any case, a NaN with optional digits).
  Anything else raises \<open>InvalidOperation\<close>.
\<close>

definition exponent_of :: "string \<Rightarrow> int option" where
  "exponent_of e =
     (let (neg, ds) =
        (case e of
           c # r \<Rightarrow> if c = CHR ''-'' then (True, r) else if c = CHR ''+'' then (False, r) else (False, e)
         | [] \<Rightarrow> (False, e))
      in if ds \<noteq> [] \<and> list_all isdigit ds
         then Some (if neg then - int (digits_val ds) else int (digits_val ds))
         else None)"

definition pow10 :: "int \<Rightarrow> rat" where
  "pow10 k = (if 0 \<le> k then 10 ^ nat k else 1 / 10 ^ nat (- k))"

definition unsigned_of :: "string \<Rightarrow> Decimal option" where
  "unsigned_of u =
     (let l = map lower u in
      if l = ''inf'' \<or> l = ''infinity'' then Some Special
      else if (startswith l ''nan'' \<and> list_all isdigit (drop 3 l))
            \<or> (startswith l ''snan'' \<and> list_all isdigit (drop 4 l)) then Some Special
      else
        (let mant = takeWhile (\<lambda>c. c \<noteq> CHR ''e'') l;
             rest = dropWhile (\<lambda>c. c \<noteq> CHR ''e'') l;
             ip = takeWhile isdigit mant;
             after = dropWhile isdigit mant;
             has_point = (after \<noteq> [] \<and> hd after = CHR ''.'');
             fp = (if has_point then tl after else []);
             ex = (if rest = [] then Some 0 else exponent_of (tl rest))
         in if (after = [] \<or> has_point) \<and> list_all isdigit fp \<and> (ip \<noteq> [] \<or> fp \<noteq> [])
            then (case ex of
                    None \<Rightarrow> None
                  | Some k \<Rightarrow>
                      Some (Finite (of_nat (digits_val (ip @ fp)) * pow10 (k - int (length fp)))))
            else None))"

definition Decimal_of_string :: "string \<Rightarrow> exn + Decimal" where
  "Decimal_of_string s =
     (let t = filter (\<lambda>c. c \<noteq> CHR ''_'') (strip s);
          (neg, u) =
            (case t of
               c # r \<Rightarrow> if c = CHR ''-'' then (True, r) else if c = CHR ''+'' then (False, r) else (False, t)
             | [] \<Rightarrow> (False, t))
      in case unsigned_of u of
           None \<Rightarrow> Inl InvalidOperation
         | Some Special \<Rightarrow> Inr Special
         | Some (Finite r) \<Rightarrow> Inr (Finite (if neg then - r else r)))"

text \<open>
  \<open>Decimal(str(x))\<close>: \<open>str\<close> of an int or a float is a numeral of the same value;
  \<open>str\<close> of \<open>None\<close>, a bool, a list or a dict (\<open>None\<close>, \<open>True\<close>, \<open>[...]\<close>, \<open>{...}\<close>) is
  never a numeric string.
\<close>

definition Decimal_of_str :: "json \<Rightarrow> exn + Decimal" where
  "Decimal_of_str x =
     (case x of
        JInt i \<Rightarrow> Inr (Finite (of_int i))
      | JFloat r \<Rightarrow> Inr (Finite r)
      | JStr s \<Rightarrow> Decimal_of_string s
      | _ \<Rightarrow> Inl InvalidOperation)"

subsection \<open>The invoice models (models.py)\<close>

record LineItem =
  description :: string
  quantity :: rat
  unit_price :: rat
  taxable :: bool

definition line_total :: "LineItem \<Rightarrow> rat" where
  "line_total item = quantity item * unit_price item"

text \<open>
  \<open>LineItem(description=d, quantity=q, unit_price=p)\<close>, the call the validator
  makes: \<open>taxable\<close> is not passed and takes its default \<open>True\<close>. pydantic checks
  the description (a string of 1 to 500 characters, stripped afterwards by
  \<open>sanitize_description\<close>), \<open>quantity > 0\<close> and \<open>unit_price \<ge> 0\<close>.
\<close>

definition LineItem_init :: "json \<Rightarrow> Decimal \<Rightarrow> Decimal \<Rightarrow> exn + LineItem" where
  "LineItem_init d q p =
     (case (d, q, p) of
        (JStr s, Finite qv, Finite pv) \<Rightarrow>
          if 1 \<le> length s \<and> length s \<le> 500 \<and> 0 < qv \<and> 0 \<le> pv
          then Inr \<lparr>description = strip s, quantity = qv, unit_price = pv, taxable = True\<rparr>
          else Inl ValidationError
      | _ \<Rightarrow> Inl ValidationError)"

record InvoiceData =
  customer_name :: string
  customer_email :: "string option"
  customer_address :: "string option"
  invoice_date :: date
  due_date :: date
  invoice_number :: "string option"
  line_items :: "LineItem list"
  tax_rate :: rat
  discount :: rat
  inv_notes :: "string option"

definition subtotal :: "InvoiceData \<Rightarrow> rat" where
  "subtotal x = sum_list (map line_total (line_items x))"

definition taxable_subtotal :: "InvoiceData \<Rightarrow> rat" where
  "taxable_subtotal x = sum_list (map line_total (filter taxable (line_items x)))"

definition tax_amount :: "InvoiceData \<Rightarrow> rat" where
  "tax_amount x =
     (if subtotal x = 0 then 0
      else
        (let taxable_ratio = (if subtotal x > 0 then taxable_subtotal x / subtotal x else 0);
             taxable_discount = discount x * taxable_ratio
         in (taxable_subtotal x - taxable_discount) * tax_rate x))"

definition total :: "InvoiceData \<Rightarrow> rat" where
  "total x = subtotal x - discount x + tax_amount x"

text \<open>An \<open>Optional[str]\<close> field with a \<open>max_length\<close>.\<close>

definition optional_str :: "nat \<Rightarrow> json \<Rightarrow> string option option" where
  "optional_str n x =
     (case x of
        JNull \<Rightarrow> Some None
      | JStr s \<Rightarrow> if length s \<le> n then Some (Some s) else None
      | _ \<Rightarrow> None)"

text \<open>
  \<open>InvoiceData(...)\<close> as the validator calls it (no \<open>invoice_number\<close>). pydantic
  checks every field and raises one \<open>ValidationError\<close>; \<open>validate_due_date\<close> is the
  last of the checks below.
\<close>

definition InvoiceData_init ::
  "json \<Rightarrow> json \<Rightarrow> json \<Rightarrow> date \<Rightarrow> date \<Rightarrow> LineItem list \<Rightarrow> Decimal \<Rightarrow> Decimal \<Rightarrow> json
     \<Rightarrow> exn + InvoiceData" where
  "InvoiceData_init name email address inv_date due items rate disc nts =
     (case (name, optional_str 254 email, optional_str 500 address, rate, disc,
            optional_str 1000 nts) of
        (JStr n, Some e, Some a, Finite r, Finite dc, Some nt) \<Rightarrow>
          if 1 \<le> length n \<and> length n \<le> 200 \<and> 1 \<le> length items
             \<and> 0 \<le> r \<and> r \<le> 1 \<and> 0 \<le> dc \<and> \<not> due < inv_date
          then Inr \<lparr>customer_name = n, customer_email = e, customer_address = a,
                    invoice_date = inv_date, due_date = due, invoice_number = None,
                    line_items = items, tax_rate = r, discount = dc, inv_notes = nt\<rparr>
          else Inl ValidationError
      | _ \<Rightarrow> Inl ValidationError)"

subsection \<open>The validator (BedrockClient.validate\_and\_parse\_invoice\_data)\<close>

definition parse_line_item :: "json \<Rightarrow> exn + LineItem" where
  "parse_line_item item =
     bind_exn (subscript item ''description'') (\<lambda>d.
     bind_exn (subscript item ''quantity'') (\<lambda>q.
     bind_exn (Decimal_of_str q) (\<lambda>qty.
     bind_exn (subscript item ''unit_price'') (\<lambda>p.
     bind_exn (Decimal_of_str p) (\<lambda>price.
       LineItem_init d qty price)))))"

fun parse_line_items :: "json list \<Rightarrow> exn + LineItem list" where
  "parse_line_items [] = Inr []"
| "parse_line_items (item # rest) =
     bind_exn (parse_line_item item) (\<lambda>li.
     bind_exn (parse_line_items rest) (\<lambda>lis. Inr (li # lis)))"

text \<open>
  The body of the \<open>try\<close>, block by block in the order the statements run;
  \<open>today\<close> is \<open>date.today()\<close>.
\<close>

text \<open>Parse line items: the loop over \<open>invoice_dict.get('line_items', [])\<close>.\<close>

definition parse_items_of :: "json \<Rightarrow> exn + LineItem list" where
  "parse_items_of invoice_dict =
     bind_exn (py_get invoice_dict ''line_items'' (JArr [])) (\<lambda>raw_items.
     bind_exn (iterate raw_items) (\<lambda>items.
       parse_line_items items))"

text \<open>Parse dates: both keys are subscripted, so both are required.\<close>

definition parse_dates :: "json \<Rightarrow> exn + date \<times> date" where
  "parse_dates invoice_dict =
     bind_exn (subscript invoice_dict ''invoice_date'') (\<lambda>raw_inv.
     bind_exn (date_fromisoformat raw_inv) (\<lambda>inv0.
     bind_exn (subscript invoice_dict ''due_date'') (\<lambda>raw_due.
     bind_exn (date_fromisoformat raw_due) (\<lambda>due0.
       Inr (inv0, due0)))))"

text \<open>
  Date validation with auto-correction: an invoice date more than 90 days back
  becomes today; a due date before the invoice date becomes the invoice date plus
  30 days (the warning computes that date before the assignment does); a due date
  more than 365 days ahead is only logged.
\<close>

definition correct_dates :: "date \<Rightarrow> date \<Rightarrow> date \<Rightarrow> exn + date \<times> date" where
  "correct_dates today inv0 due0 =
     bind_exn (date_add_days today (- 90)) (\<lambda>oldest.
     let inv1 = (if inv0 < oldest then today else inv0) in
     bind_exn (if due0 < inv1 then date_add_days inv1 30 else Inr due0) (\<lambda>due.
     bind_exn (date_add_days today 365) (\<lambda>horizon.
       Inr (inv1, due))))"

text \<open>Build invoice data: the arguments of \<open>InvoiceData(...)\<close>, left to right.\<close>

definition build_invoice_data ::
  "json \<Rightarrow> date \<Rightarrow> date \<Rightarrow> LineItem list \<Rightarrow> exn + InvoiceData" where
  "build_invoice_data invoice_dict inv1 due lis =
     bind_exn (subscript invoice_dict ''customer_name'') (\<lambda>name.
     bind_exn (py_get invoice_dict ''customer_email'' JNull) (\<lambda>email.
     bind_exn (py_get invoice_dict ''customer_address'' JNull) (\<lambda>address.
     bind_exn (py_get invoice_dict ''tax_rate'' (JStr ''0.00'')) (\<lambda>raw_rate.
     bind_exn (Decimal_of_str raw_rate) (\<lambda>rate.
     bind_exn (py_get invoice_dict ''discount'' (JStr ''0.00'')) (\<lambda>raw_disc.
     bind_exn (Decimal_of_str raw_disc) (\<lambda>disc.
     bind_exn (py_get invoice_dict ''notes'' JNull) (\<lambda>nts.
       InvoiceData_init name email address inv1 due lis rate disc nts))))))))"

definition validate_body :: "date \<Rightarrow> dict \<Rightarrow> exn + InvoiceData" where
  "validate_body today data =
     bind_exn (py_get (JObj data) ''data'' (JObj [])) (\<lambda>invoice_dict.
     bind_exn (parse_items_of invoice_dict) (\<lambda>lis.
     bind_exn (parse_dates invoice_dict) (\<lambda>(inv0, due0).
     bind_exn (correct_dates today inv0 due0) (\<lambda>(inv1, due).
       build_invoice_data invoice_dict inv1 due lis))))"

text \<open>
  The three \<open>except\<close> clauses turn every exception into a \<open>ValueError\<close> whose
  message starts with one of three phrases.
\<close>

datatype rejection =
    Missing_required_field string
  | Invalid_data_format
  | Failed_to_parse_invoice_data

definition validate_and_parse_invoice_data :: "date \<Rightarrow> dict \<Rightarrow> rejection + InvoiceData" where
  "validate_and_parse_invoice_data today data =
     (case validate_body today data of
        Inr x \<Rightarrow> Inr x
      | Inl (KeyError k) \<Rightarrow> Inl (Missing_required_field k)
      | Inl e \<Rightarrow> if is_ValueError e then Inl Invalid_data_format
                 else Inl Failed_to_parse_invoice_data)"

subsection \<open>The extractor (BedrockClient.\_extract\_json\_from\_response)\<close>

text \<open>
  The text the extractor hands to \<open>json.loads\<close>: the response stripped, without a
  leading \<open>```json\<close>, then without a leading \<open>```\<close>, then without a trailing
  \<open>```\<close>, and stripped again.
\<close>

definition json_str_of :: "string \<Rightarrow> string" where
  "json_str_of response =
     (let s0 = strip response;
          s1 = (if startswith s0 ''```json'' then drop 7 s0 else s0);
          s2 = (if startswith s1 ''```'' then drop 3 s1 else s1);
          s3 = (if endswith s2 ''```'' then take (length s2 - 3) s2 else s2)
      in strip s3)"

text \<open>
  \<open>loads\<close> is \<open>json.loads\<close>, the standard library's parser: it returns a JSON value
  or raises. Both \<open>except\<close> clauses of the extractor fall through to \<open>return None\<close>.
\<close>

definition extract_json_from_response :: "(string \<Rightarrow> exn + json) \<Rightarrow> string \<Rightarrow> dict option" where
  "extract_json_from_response loads response =
     (let json_str = json_str_of response in
      if startswith json_str ''{'' then
        (case loads json_str of
           Inl e \<Rightarrow> None
         | Inr (JObj d) \<Rightarrow> if dict_get d ''action'' \<noteq> None then Some d else None
         | Inr _ \<Rightarrow> None)
      else None)"

subsection \<open>Request utilities (security.py)\<close>

text \<open>
  \<open>validate_user_id\<close>: the pattern \<open>^[a-zA-Z0-9_\-:.]{1,256}$\<close> under \<open>re.match\<close>,
  where \<open>$\<close> also matches before a final newline.
\<close>

definition user_id_char :: "char \<Rightarrow> bool" where
  "user_id_char c =
     (let n = (of_char c :: nat)
      in (97 \<le> n \<and> n \<le> 122) \<or> (65 \<le> n \<and> n \<le> 90) \<or> (48 \<le> n \<and> n \<le> 57)
         \<or> c = CHR ''_'' \<or> c = CHR ''-'' \<or> c = CHR '':'' \<or> c = CHR ''.'')"

definition user_id_pattern :: "string \<Rightarrow> bool" where
  "user_id_pattern u =
     (let core = (if u \<noteq> [] \<and> last u = CHR 0x0A \<and> \<not> list_all user_id_char u
                  then butlast u else u)
      in 1 \<le> length core \<and> length core \<le> 256 \<and> list_all user_id_char core)"

definition validate_user_id :: "string option \<Rightarrow> exn + string" where
  "validate_user_id user_id =
     (case user_id of
        None \<Rightarrow> Inl InputValidationError
      | Some u \<Rightarrow> if u = [] then Inl InputValidationError
                  else if \<not> user_id_pattern u then Inl InputValidationError
                  else Inr u)"

text \<open>\<open>html.escape(text, quote=True)\<close>.\<close>

definition html_escape :: "string \<Rightarrow> string" where
  "html_escape text =
     concat (map (\<lambda>c. if c = CHR ''&'' then ''&amp;''
                       else if c = CHR ''<'' then ''&lt;''
                       else if c = CHR ''>'' then ''&gt;''
                       else if c = CHR 0x22 then ''&quot;''
                       else if c = CHR 0x27 then ''&#x27;''
                       else [c]) text)"

text \<open>
  \<open>sanitize_input\<close>; \<open>dangerous\<close> says whether one of the compiled patterns of
  \<open>DANGEROUS_PATTERNS\<close> or \<open>SQL_INJECTION_PATTERNS\<close> is found in the text.
\<close>

definition sanitize_input :: "(string \<Rightarrow> bool) \<Rightarrow> string \<Rightarrow> nat \<Rightarrow> exn + string" where
  "sanitize_input dangerous text max_length =
     (if length text > max_length then Inl InputValidationError
      else if dangerous text then Inl InputValidationError
      else Inr (strip (filter (\<lambda>c. c \<noteq> CHR 0x00) (html_escape text))))"

subsection \<open>Conversations, invoices and rate windows (models.py)\<close>

datatype ConversationState = INITIATED | GATHERING_INFO | REVIEWING | COMPLETED | ABANDONED

datatype InvoiceStatus = DRAFT | PENDING | PAID | CANCELLED

text \<open>
  A \<open>datetime\<close>, as the fields the code reads: the calendar year and month, and
  the seconds since the epoch (\<open>timestamp()\<close>, fractions included).
\<close>

record datetime =
  dt_year :: int
  dt_month :: int
  dt_seconds :: rat

record Message =
  role :: string
  content :: string
  timestamp :: datetime

text \<open>\<open>Message(role=r, content=c)\<close> with \<open>r\<close> one of the two roles the code passes.\<close>

definition Message_init :: "datetime \<Rightarrow> string \<Rightarrow> string \<Rightarrow> exn + Message" where
  "Message_init now r c =
     (if 1 \<le> length c \<and> length c \<le> 10000
      then Inr \<lparr>role = r, content = c, timestamp = now\<rparr>
      else Inl ValidationError)"

record Conversation =
  conversation_id :: string
  user_id :: string
  state :: ConversationState
  messages :: "Message list"
  extracted_data :: "dict option"
  created_at :: datetime
  updated_at :: datetime

text \<open>
  \<open>Conversation(user_id=u, state=ConversationState.INITIATED)\<close>; \<open>cid\<close> is the
  \<open>uuid4()\<close> drawn for it.
\<close>

definition Conversation_init :: "datetime \<Rightarrow> string \<Rightarrow> string \<Rightarrow> exn + Conversation" where
  "Conversation_init now cid u =
     (if 1 \<le> length u \<and> length u \<le> 256
      then Inr \<lparr>conversation_id = cid, user_id = u, state = INITIATED, messages = [],
                extracted_data = None, created_at = now, updated_at = now\<rparr>
      else Inl ValidationError)"

definition add_message :: "datetime \<Rightarrow> Conversation \<Rightarrow> string \<Rightarrow> string \<Rightarrow> exn + Conversation" where
  "add_message now c r text =
     bind_exn (Message_init now r text) (\<lambda>m.
       Inr (c\<lparr>messages := messages c @ [m], updated_at := now\<rparr>))"

record Invoice =
  invoice_id :: string
  invoice_user_id :: string
  invoice_conversation_id :: "string option"
  data :: InvoiceData
  status :: InvoiceStatus
  pdf_s3_key :: "string option"
  invoice_created_at :: datetime
  invoice_updated_at :: datetime

definition Invoice_init ::
  "datetime \<Rightarrow> string \<Rightarrow> string \<Rightarrow> string \<Rightarrow> InvoiceData \<Rightarrow> exn + Invoice" where
  "Invoice_init now iid u cid d =
     (if 1 \<le> length u \<and> length u \<le> 256
      then Inr \<lparr>invoice_id = iid, invoice_user_id = u, invoice_conversation_id = Some cid,
                data = d, status = DRAFT, pdf_s3_key = None,
                invoice_created_at = now, invoice_updated_at = now\<rparr>
      else Inl ValidationError)"

record RateLimit =
  rl_user_id :: string
  request_count :: int
  window_start :: datetime
  ttl :: int

definition RateLimit_create_new :: "datetime \<Rightarrow> string \<Rightarrow> int \<Rightarrow> exn + RateLimit" where
  "RateLimit_create_new now u window =
     (if 1 \<le> length u \<and> length u \<le> 256
      then Inr \<lparr>rl_user_id = u, request_count = 1, window_start = now,
                ttl = \<lfloor>dt_seconds now\<rfloor> + window\<rparr>
      else Inl ValidationError)"

text \<open>\<open>RateLimit.is_expired()\<close>, called without an argument: the window is 3600.\<close>

definition is_expired :: "datetime \<Rightarrow> RateLimit \<Rightarrow> bool" where
  "is_expired now r = (dt_seconds now - dt_seconds (window_start r) \<ge> 3600)"

text \<open>\<open>RateLimiter.check_limit\<close> of a limiter with the given cap and window.\<close>

definition check_limit :: "datetime \<Rightarrow> int \<Rightarrow> int \<Rightarrow> int \<Rightarrow> datetime \<Rightarrow> bool" where
  "check_limit now max_req window current_count start =
     (if dt_seconds now - dt_seconds start \<ge> of_int window then True
      else current_count < max_req)"

text \<open>
  A subscription item, as the attributes the handler reads and the helper writes;
  each may be absent from the item.
\<close>

record Subscription =
  subscription_status :: "string option"
  invoices_this_month :: "int option"
  invoice_count_reset_at :: "datetime option"

subsection \<open>The store and the outside world\<close>

text \<open>
  The four DynamoDB tables, keyed as the helper keys them, and the trace of what a
  turn did to the outside world, oldest first: every item it put and every call to
  the model, with the message history it sent.
\<close>

datatype effect =
    Put_rate_limit RateLimit
  | Put_conversation Conversation
  | Put_invoice Invoice
  | Put_subscription string Subscription
  | Invoke_model "Message list"

record world =
  conversations :: "string \<rightharpoonup> Conversation"
  invoices :: "string \<rightharpoonup> Invoice"
  rate_limits :: "string \<rightharpoonup> RateLimit"
  subscriptions :: "string \<rightharpoonup> Subscription"
  trace :: "effect list"

text \<open>The helper's methods that reach the store, one boto3 call each.\<close>

datatype db_op =
    Op_get_rate_limit
  | Op_update_rate_limit
  | Op_get_conversation
  | Op_create_conversation
  | Op_update_conversation
  | Op_create_invoice
  | Op_get_user_subscription
  | Op_put_subscription
  | Op_reset_monthly_invoice_count
  | Op_increment_monthly_invoice_count

text \<open>How a boto3 call can fail.\<close>

datatype boto_failure = ClientError | Unreachable

text \<open>
  What a turn finds around it: the two environment settings of the limiter, the
  clock (\<open>datetime.utcnow()\<close> and \<open>date.today()\<close>, read once for the turn), how
  each boto3 call fails if it does, the model (\<open>None\<close> when \<open>converse\<close> raises
  \<open>BedrockException\<close>), \<open>json.loads\<close>, the identifiers \<open>uuid4()\<close> draws, and the
  pattern search of \<open>sanitize_input\<close>.
\<close>

record env =
  max_requests :: int
  window_seconds :: int
  utcnow :: datetime
  today :: date
  fault :: "db_op \<Rightarrow> boto_failure option"
  converse :: "Message list \<Rightarrow> string option"
  json_loads :: "string \<Rightarrow> exn + json"
  new_conversation_id :: string
  new_invoice_id :: string
  dangerous :: "string \<Rightarrow> bool"

datatype response_data =
    Usage_limit_reached string int
  | Invoice_ready string string string InvoiceData "int option"
  | Invoice_issues string rejection
  | Cancelled string string
  | Reply string string

datatype response =
    Error_response int string
  | Success_response response_data

text \<open>
  A step of the handler continues with a value, returns a response, or raises.
\<close>

datatype 'a step = Next 'a | Return response | Raise exn

definition then_step ::
  "'a step \<times> world \<Rightarrow> ('a \<Rightarrow> world \<Rightarrow> 'b step \<times> world) \<Rightarrow> 'b step \<times> world" where
  "then_step m f =
     (case m of
        (Next x, w) \<Rightarrow> f x w
      | (Return r, w) \<Rightarrow> (Return r, w)
      | (Raise e, w) \<Rightarrow> (Raise e, w))"

text \<open>
  Every method of the helper wraps its call in \<open>except ClientError\<close> and raises
  \<open>DynamoDBException\<close>; a failure to reach the service is not a \<open>ClientError\<close>
  (botocore raises \<open>EndpointConnectionError\<close>) and passes through.
\<close>

definition raised :: "env \<Rightarrow> db_op \<Rightarrow> exn option" where
  "raised env op =
     (case fault env op of
        None \<Rightarrow> None
      | Some ClientError \<Rightarrow> Some DynamoDBException
      | Some Unreachable \<Rightarrow> Some EndpointConnectionError)"

text \<open>
  boto3 serialises an item before it sends it and raises \<open>TypeError\<close> on a Python
  float anywhere in it; the only JSON a turn stores is a conversation's
  \<open>extracted_data\<close>.
\<close>

fun has_float :: "json \<Rightarrow> bool" where
  "has_float (JFloat r) = True"
| "has_float (JArr xs) = list_ex has_float xs"
| "has_float (JObj d) = list_ex (\<lambda>kv. has_float (snd kv)) d"
| "has_float _ = False"

definition serializable :: "Conversation \<Rightarrow> bool" where
  "serializable c = (case extracted_data c of None \<Rightarrow> True | Some d \<Rightarrow> \<not> has_float (JObj d))"

subsection \<open>The store helper (dynamodb\_helper.py)\<close>

definition get_rate_limit :: "env \<Rightarrow> string \<Rightarrow> world \<Rightarrow> RateLimit option step \<times> world" where
  "get_rate_limit env u w =
     (case raised env Op_get_rate_limit of
        Some e \<Rightarrow> (Raise e, w)
      | None \<Rightarrow> (Next (rate_limits w u), w))"

definition update_rate_limit :: "env \<Rightarrow> RateLimit \<Rightarrow> world \<Rightarrow> unit step \<times> world" where
  "update_rate_limit env r w =
     (case raised env Op_update_rate_limit of
        Some e \<Rightarrow> (Raise e, w)
      | None \<Rightarrow> (Next (), w\<lparr>rate_limits := (rate_limits w)(rl_user_id r \<mapsto> r),
                             trace := trace w @ [Put_rate_limit r]\<rparr>))"

definition get_conversation :: "env \<Rightarrow> string \<Rightarrow> world \<Rightarrow> Conversation option step \<times> world" where
  "get_conversation env cid w =
     (case raised env Op_get_conversation of
        Some e \<Rightarrow> (Raise e, w)
      | None \<Rightarrow> (Next (conversations w cid), w))"

definition put_conversation :: "env \<Rightarrow> db_op \<Rightarrow> Conversation \<Rightarrow> world \<Rightarrow> unit step \<times> world" where
  "put_conversation env op c w =
     (if \<not> serializable c then (Raise TypeError, w)
      else case raised env op of
             Some e \<Rightarrow> (Raise e, w)
           | None \<Rightarrow> (Next (), w\<lparr>conversations := (conversations w)(conversation_id c \<mapsto> c),
                                  trace := trace w @ [Put_conversation c]\<rparr>))"

definition create_conversation :: "env \<Rightarrow> Conversation \<Rightarrow> world \<Rightarrow> unit step \<times> world" where
  "create_conversation env c w = put_conversation env Op_create_conversation c w"

definition update_conversation :: "env \<Rightarrow> Conversation \<Rightarrow> world \<Rightarrow> unit step \<times> world" where
  "update_conversation env c w =
     put_conversation env Op_update_conversation (c\<lparr>updated_at := utcnow env\<rparr>) w"

definition create_invoice :: "env \<Rightarrow> Invoice \<Rightarrow> world \<Rightarrow> unit step \<times> world" where
  "create_invoice env i w =
     (case raised env Op_create_invoice of
        Some e \<Rightarrow> (Raise e, w)
      | None \<Rightarrow> (Next (), w\<lparr>invoices := (invoices w)(invoice_id i \<mapsto> i),
                             trace := trace w @ [Put_invoice i]\<rparr>))"

definition put_subscription :: "string \<Rightarrow> Subscription \<Rightarrow> world \<Rightarrow> world" where
  "put_subscription u sub w =
     w\<lparr>subscriptions := (subscriptions w)(u \<mapsto> sub), trace := trace w @ [Put_subscription u sub]\<rparr>"

text \<open>
  \<open>increment_monthly_invoice_count\<close>: one \<open>update_item\<close> that sets the counter to
  \<open>if_not_exists(invoices_this_month, 0) + 1\<close>, creating the item if there is none.
\<close>

definition increment_monthly_invoice_count :: "env \<Rightarrow> string \<Rightarrow> world \<Rightarrow> int step \<times> world" where
  "increment_monthly_invoice_count env u w =
     (case raised env Op_increment_monthly_invoice_count of
        Some e \<Rightarrow> (Raise e, w)
      | None \<Rightarrow>
          (let old = (case subscriptions w u of
                        None \<Rightarrow> \<lparr>subscription_status = None, invoices_this_month = None,
                                  invoice_count_reset_at = None\<rparr>
                      | Some sub \<Rightarrow> sub);
               n = (case invoices_this_month old of None \<Rightarrow> 0 | Some k \<Rightarrow> k) + 1
           in (Next n, put_subscription u (old\<lparr>invoices_this_month := Some n\<rparr>) w)))"

text \<open>
  \<open>check_and_reset_monthly_count\<close>: a first-time user gets the default free item;
  a counter whose reset stamp lies in another month or year is reset.
\<close>

definition check_and_reset_monthly_count :: "env \<Rightarrow> string \<Rightarrow> world \<Rightarrow> Subscription step \<times> world" where
  "check_and_reset_monthly_count env u w =
     (case raised env Op_get_user_subscription of
        Some e \<Rightarrow> (Raise e, w)
      | None \<Rightarrow>
          (case subscriptions w u of
             None \<Rightarrow>
               (case raised env Op_put_subscription of
                  Some e \<Rightarrow> (Raise e, w)
                | None \<Rightarrow>
                    (Next \<lparr>subscription_status = Some ''free'', invoices_this_month = Some 0,
                           invoice_count_reset_at = None\<rparr>,
                     put_subscription u
                       \<lparr>subscription_status = Some ''free'', invoices_this_month = Some 0,
                        invoice_count_reset_at = Some (utcnow env)\<rparr> w))
           | Some sub \<Rightarrow>
               (case invoice_count_reset_at sub of
                  None \<Rightarrow> (Next sub, w)
                | Some reset_date \<Rightarrow>
                    if dt_month reset_date \<noteq> dt_month (utcnow env)
                       \<or> dt_year reset_date \<noteq> dt_year (utcnow env)
                    then
                      (case raised env Op_reset_monthly_invoice_count of
                         Some e \<Rightarrow> (Raise e, w)
                       | None \<Rightarrow>
                           (Next (sub\<lparr>invoices_this_month := Some 0\<rparr>),
                            put_subscription u
                              (sub\<lparr>invoices_this_month := Some 0,
                                   invoice_count_reset_at := Some (utcnow env)\<rparr>) w))
                    else (Next sub, w))))"

subsection \<open>A conversation turn (BedrockClient.process\_conversation\_turn)\<close>

text \<open>
  The user message is appended to the conversation object in memory, the model is
  called with the whole history, the reply is searched for a structured action and
  appended. Nothing here writes to the store.
\<close>

definition process_conversation_turn ::
  "env \<Rightarrow> Conversation \<Rightarrow> string \<Rightarrow> world
     \<Rightarrow> (Conversation \<times> string \<times> dict option) step \<times> world" where
  "process_conversation_turn env conversation user_message w =
     (case add_message (utcnow env) conversation ''user'' user_message of
        Inl e \<Rightarrow> (Raise e, w)
      | Inr c1 \<Rightarrow>
          (let w1 = w\<lparr>trace := trace w @ [Invoke_model (messages c1)]\<rparr> in
           case converse env (messages c1) of
             None \<Rightarrow> (Raise BedrockException, w1)
           | Some assistant_message \<Rightarrow>
               (let extracted = extract_json_from_response (json_loads env) assistant_message in
                case add_message (utcnow env) c1 ''assistant'' assistant_message of
                  Inl e \<Rightarrow> (Raise e, w1)
                | Inr c2 \<Rightarrow> (Next (c2, assistant_message, extracted), w1))))"

subsection \<open>The handler (functions/bedrock/conversation.py)\<close>

text \<open>
  The request, as API Gateway delivers it: the two Cognito claims the handler
  looks at and, of the decoded JSON body, the \<open>conversation_id\<close> and the \<open>message\<close>,
  each a string when present.
\<close>

record event =
  claim_sub :: "string option"
  claim_username :: "string option"
  body_conversation_id :: "string option"
  body_message :: "string option"

text \<open>\<open>claims.get("sub") or claims.get("cognito:username")\<close>, then \<open>validate_user_id\<close>.\<close>

definition extract_user_id_from_event :: "event \<Rightarrow> exn + string" where
  "extract_user_id_from_event ev =
     validate_user_id
       (case claim_sub ev of
          Some u \<Rightarrow> if u \<noteq> [] then Some u else claim_username ev
        | None \<Rightarrow> claim_username ev)"

text \<open>Lines 62 to 99: the message rate check.\<close>

definition start_new_window :: "env \<Rightarrow> string \<Rightarrow> world \<Rightarrow> unit step \<times> world" where
  "start_new_window env u w =
     (case RateLimit_create_new (utcnow env) u (window_seconds env) of
        Inl e \<Rightarrow> (Raise e, w)
      | Inr r \<Rightarrow> update_rate_limit env r w)"

definition rate_limit_check :: "env \<Rightarrow> string \<Rightarrow> world \<Rightarrow> unit step \<times> world" where
  "rate_limit_check env u w =
     then_step (get_rate_limit env u w) (\<lambda>rate_limit_record w.
       case rate_limit_record of
         Some r \<Rightarrow>
           if \<not> is_expired (utcnow env) r then
             if \<not> check_limit (utcnow env) (max_requests env) (window_seconds env)
                    (request_count r) (window_start r)
             then (Return (Error_response 429 ''RateLimitExceeded''), w)
             else update_rate_limit env (r\<lparr>request_count := request_count r + 1\<rparr>) w
           else start_new_window env u w
       | None \<Rightarrow> start_new_window env u w)"

text \<open>Lines 106 to 145: the conversation is fetched and its owner checked, or created.\<close>

definition get_or_create_conversation ::
  "env \<Rightarrow> event \<Rightarrow> string \<Rightarrow> world \<Rightarrow> Conversation step \<times> world" where
  "get_or_create_conversation env ev u w =
     (case body_conversation_id ev of
        Some cid \<Rightarrow>
          if cid \<noteq> [] then
            then_step (get_conversation env cid w) (\<lambda>found w.
              case found of
                None \<Rightarrow> (Return (Error_response 404 ''NotFound''), w)
              | Some c \<Rightarrow>
                  if user_id c \<noteq> u then (Return (Error_response 403 ''Forbidden''), w)
                  else (Next c, w))
          else
            (case Conversation_init (utcnow env) (new_conversation_id env) u of
               Inl e \<Rightarrow> (Raise e, w)
             | Inr c \<Rightarrow> then_step (create_conversation env c w) (\<lambda>_ w. (Next c, w)))
      | None \<Rightarrow>
          (case Conversation_init (utcnow env) (new_conversation_id env) u of
             Inl e \<Rightarrow> (Raise e, w)
           | Inr c \<Rightarrow> then_step (create_conversation env c w) (\<lambda>_ w. (Next c, w))))"

text \<open>Lines 147 to 161: the message is trimmed, required and sanitised.\<close>

definition user_message_of :: "env \<Rightarrow> event \<Rightarrow> world \<Rightarrow> string step \<times> world" where
  "user_message_of env ev w =
     (let user_message = strip (case body_message ev of None \<Rightarrow> [] | Some m \<Rightarrow> m) in
      if user_message = [] then (Return (Error_response 400 ''ValidationError''), w)
      else case sanitize_input (dangerous env) user_message 2000 of
             Inl e \<Rightarrow> (Return (Error_response 400 ''ValidationError''), w)
           | Inr m \<Rightarrow> (Next m, w))"

definition FREE_TIER_INVOICE_LIMIT :: int where
  "FREE_TIER_INVOICE_LIMIT = 5"

text \<open>
  Lines 178 to 259: the \<open>create_invoice\<close> action. It yields the conversation to
  save and the response data, or returns from the handler when the quota is used
  up. \<open>except ValueError\<close> covers the validator and the \<open>Invoice\<close> constructor.
\<close>

definition on_create_invoice ::
  "env \<Rightarrow> string \<Rightarrow> Conversation \<Rightarrow> string \<Rightarrow> dict \<Rightarrow> world
     \<Rightarrow> (Conversation \<times> response_data) step \<times> world" where
  "on_create_invoice env u conversation assistant_response extracted w =
     then_step (check_and_reset_monthly_count env u w) (\<lambda>subscription w.
       let is_pro = (subscription_status subscription = Some ''pro'');
           count = (case invoices_this_month subscription of None \<Rightarrow> 0 | Some n \<Rightarrow> n)
       in
       if \<not> is_pro \<and> count \<ge> FREE_TIER_INVOICE_LIMIT then
         then_step (update_conversation env (conversation\<lparr>state := COMPLETED\<rparr>) w) (\<lambda>_ w.
           (Return (Success_response
                      (Usage_limit_reached (conversation_id conversation) count)), w))
       else
         (case validate_and_parse_invoice_data (today env) extracted of
            Inl reason \<Rightarrow>
              (Next (conversation\<lparr>state := GATHERING_INFO\<rparr>,
                     Invoice_issues (conversation_id conversation) reason), w)
          | Inr invoice_data \<Rightarrow>
              (let c1 = conversation\<lparr>extracted_data := Some extracted, state := COMPLETED\<rparr> in
               case Invoice_init (utcnow env) (new_invoice_id env) u
                      (conversation_id conversation) invoice_data of
                 Inl e \<Rightarrow>
                   (Next (c1\<lparr>state := GATHERING_INFO\<rparr>,
                          Invoice_issues (conversation_id conversation) Invalid_data_format), w)
               | Inr invoice \<Rightarrow>
                   then_step (create_invoice env invoice w) (\<lambda>_ w.
                   then_step (increment_monthly_invoice_count env u w) (\<lambda>new_count w.
                     (Next (c1,
                            Invoice_ready (conversation_id conversation) assistant_response
                              (invoice_id invoice) invoice_data
                              (if \<not> is_pro then Some (FREE_TIER_INVOICE_LIMIT - new_count)
                               else None)), w))))))"

text \<open>Lines 174 to 286: the new state and the response data of the turn.\<close>

definition dispatch ::
  "env \<Rightarrow> string \<Rightarrow> Conversation \<Rightarrow> string \<Rightarrow> dict option \<Rightarrow> world
     \<Rightarrow> (Conversation \<times> response_data) step \<times> world" where
  "dispatch env u conversation assistant_response found_data w =
     (case found_data of
        Some d \<Rightarrow>
          (let action = dict_get d ''action'' in
           if action = Some (JStr ''create_invoice'')
           then on_create_invoice env u conversation assistant_response d w
           else if action = Some (JStr ''cancel'')
           then (Next (conversation\<lparr>state := ABANDONED\<rparr>,
                       Cancelled (conversation_id conversation) assistant_response), w)
           else (Next (conversation\<lparr>state := GATHERING_INFO\<rparr>,
                       Reply (conversation_id conversation) assistant_response), w))
      | None \<Rightarrow>
          (Next (conversation\<lparr>state := GATHERING_INFO\<rparr>,
                 Reply (conversation_id conversation) assistant_response), w))"

text \<open>Lines 163 to 306: the inner \<open>try\<close>, which catches \<open>BedrockException\<close> only.\<close>

definition run_turn ::
  "env \<Rightarrow> string \<Rightarrow> Conversation \<Rightarrow> string \<Rightarrow> world \<Rightarrow> response step \<times> world" where
  "run_turn env u conversation user_message w =
     (case
        then_step (process_conversation_turn env conversation user_message w)
          (\<lambda>(c, assistant_response, found_data) w.
        then_step (dispatch env u c assistant_response found_data w) (\<lambda>(c', response_data) w.
        then_step (update_conversation env c' w) (\<lambda>_ w.
          (Return (Success_response response_data), w))))
      of
        (Raise e, w') \<Rightarrow>
          if e = BedrockException then (Return (Error_response 500 ''BedrockError''), w')
          else (Raise e, w')
      | other \<Rightarrow> other)"

text \<open>The handler's outer \<open>try\<close> and its three \<open>except\<close> clauses.\<close>

definition handler_body :: "env \<Rightarrow> event \<Rightarrow> world \<Rightarrow> response step \<times> world" where
  "handler_body env ev w =
     (case extract_user_id_from_event ev of
        Inl e \<Rightarrow> (Raise e, w)
      | Inr u \<Rightarrow>
          then_step (rate_limit_check env u w) (\<lambda>_ w.
          then_step (get_or_create_conversation env ev u w) (\<lambda>conversation w.
          then_step (user_message_of env ev w) (\<lambda>user_message w.
            run_turn env u conversation user_message w))))"

definition handler :: "env \<Rightarrow> event \<Rightarrow> world \<Rightarrow> response \<times> world" where
  "handler env ev w =
     (case handler_body env ev w of
        (Next r, w') \<Rightarrow> (r, w')
      | (Return r, w') \<Rightarrow> (r, w')
      | (Raise e, w') \<Rightarrow>
          if e = InputValidationError then (Error_response 400 ''ValidationError'', w')
          else if e = DynamoDBException then (Error_response 500 ''DatabaseError'', w')
          else (Error_response 500 ''InternalError'', w'))"

section \<open>Concrete inputs\<close>

text \<open>
  The scenario of the tax rules: two units at 100 flagged taxable, one unit at 50
  flagged not taxable, a tax rate of 0.10 and a discount of 30; today is 2024-01-20.
\<close>

definition scenario_items :: json where
  "scenario_items = JArr
     [JObj [(''description'', JStr ''Design''), (''quantity'', JInt 2),
            (''unit_price'', JInt 100), (''taxable'', JBool True)],
      JObj [(''description'', JStr ''Hosting''), (''quantity'', JInt 1),
            (''unit_price'', JInt 50), (''taxable'', JBool False)]]"

definition scenario_payload :: dict where
  "scenario_payload =
     [(''action'', JStr ''create_invoice''),
      (''data'', JObj [(''customer_name'', JStr ''Acme''), (''invoice_date'', JStr ''2024-01-15''),
                      (''due_date'', JStr ''2024-02-15''), (''line_items'', scenario_items),
                      (''tax_rate'', JStr ''0.10''), (''discount'', JInt 30)])]"

text \<open>
  Payloads with one line item: a due date before the invoice date, the same with the
  due date in order, and an invoice dated in the last month of year 9999.
\<close>

definition one_item :: json where
  "one_item = JObj [(''description'', JStr ''Design''), (''quantity'', JInt 2),
                    (''unit_price'', JInt 100)]"

definition late_due_data :: dict where
  "late_due_data =
     [(''customer_name'', JStr ''Acme''), (''invoice_date'', JStr ''2024-01-15''),
      (''due_date'', JStr ''2024-01-01''), (''line_items'', JArr [one_item])]"

definition in_order_data :: dict where
  "in_order_data =
     [(''customer_name'', JStr ''Acme''), (''invoice_date'', JStr ''2024-01-15''),
      (''due_date'', JStr ''2024-02-01''), (''line_items'', JArr [one_item])]"

definition payload_of :: "dict \<Rightarrow> dict" where
  "payload_of d = [(''action'', JStr ''create_invoice''), (''data'', JObj d)]"

definition in_order_invoice :: InvoiceData where
  "in_order_invoice =
     \<lparr>customer_name = ''Acme'', customer_email = None, customer_address = None,
      invoice_date = 738900, due_date = 738917, invoice_number = None,
      line_items = [\<lparr>description = ''Design'', quantity = 2, unit_price = 100, taxable = True\<rparr>],
      tax_rate = 0, discount = 0, inv_notes = None\<rparr>"

definition overflow_data :: dict where
  "overflow_data =
     [(''customer_name'', JStr ''Acme''), (''invoice_date'', JStr ''9999-12-15''),
      (''due_date'', JStr ''9999-12-01''), (''line_items'', JArr [one_item])]"

text \<open>Payloads that lack one required part each.\<close>

definition no_invoice_date_data :: dict where
  "no_invoice_date_data =
     [(''customer_name'', JStr ''Acme''), (''due_date'', JStr ''2024-02-01''),
      (''line_items'', JArr [one_item])]"

definition no_items_data :: dict where
  "no_items_data =
     [(''customer_name'', JStr ''Acme''), (''invoice_date'', JStr ''2024-01-15''),
      (''due_date'', JStr ''2024-02-01'')]"

definition no_due_date_data :: dict where
  "no_due_date_data =
     [(''customer_name'', JStr ''Acme''), (''invoice_date'', JStr ''2024-01-15''),
      (''line_items'', JArr [one_item])]"

definition no_customer_data :: dict where
  "no_customer_data =
     [(''invoice_date'', JStr ''2024-01-15''), (''due_date'', JStr ''2024-02-01''),
      (''line_items'', JArr [one_item])]"

definition no_price_data :: dict where
  "no_price_data =
     [(''customer_name'', JStr ''Acme''), (''invoice_date'', JStr ''2024-01-15''),
      (''due_date'', JStr ''2024-02-01''),
      (''line_items'', JArr [one_item, JObj [(''description'', JStr ''Hosting''), (''quantity'', JStr ''1'')]])]"

text \<open>
  A reply wrapped in a fenced block with a language tag, and a parser that knows
  the one object inside it.
\<close>

definition fenced_body :: string where
  "fenced_body = [CHR 0x0A] @ ''{cancel}'' @ [CHR 0x0A]"

definition fenced_response :: string where
  "fenced_response = ''  '' @ ''```json'' @ fenced_body @ ''```'' @ [CHR 0x0A]"

definition example_loads :: "string \<Rightarrow> exn + json" where
  "example_loads s =
     (if s = ''{cancel}'' then Inr (JObj [(''action'', JStr ''cancel'')])
      else Inl JSONDecodeError)"

text \<open>
  A quiet turn: no store failure, a model that answers with a question, a first
  request of user \<open>user-1\<close> on an empty store, at 2024-01-20.
\<close>

definition now_example :: datetime where
  "now_example = \<lparr>dt_year = 2024, dt_month = 1, dt_seconds = 1705750000\<rparr>"

definition empty_world :: world where
  "empty_world = \<lparr>conversations = Map.empty, invoices = Map.empty, rate_limits = Map.empty,
                   subscriptions = Map.empty, trace = []\<rparr>"

definition quiet_env :: env where
  "quiet_env = \<lparr>max_requests = 100, window_seconds = 3600, utcnow = now_example,
                 today = 738905, fault = (\<lambda>op. None),
                 converse = (\<lambda>history. Some ''Who is the customer?''),
                 json_loads = example_loads, new_conversation_id = ''c-1'',
                 new_invoice_id = ''i-1'', dangerous = (\<lambda>text. False)\<rparr>"

definition first_event :: event where
  "first_event = \<lparr>claim_sub = Some ''user-1'', claim_username = None,
                   body_conversation_id = None, body_message = Some ''Invoice Acme please''\<rparr>"

definition first_window :: RateLimit where
  "first_window = \<lparr>rl_user_id = ''user-1'', request_count = 1, window_start = now_example,
                    ttl = 1705753600\<rparr>"

text \<open>A conversation of another user, and a request of \<open>user-1\<close> that names it.\<close>

definition others_conversation :: Conversation where
  "others_conversation =
     \<lparr>conversation_id = ''c-9'', user_id = ''user-2'', state = GATHERING_INFO, messages = [],
      extracted_data = None, created_at = now_example, updated_at = now_example\<rparr>"

definition others_world :: world where
  "others_world = empty_world\<lparr>conversations := [''c-9'' \<mapsto> others_conversation]\<rparr>"

text \<open>
  The store fails during the rate check: it rejects the read of the rate record,
  it rejects the write, or it cannot be reached at all.
\<close>

definition failing_read_env :: env where
  "failing_read_env =
     quiet_env\<lparr>fault := (\<lambda>op. if op = Op_get_rate_limit then Some ClientError else None)\<rparr>"

definition failing_write_env :: env where
  "failing_write_env =
     quiet_env\<lparr>fault := (\<lambda>op. if op = Op_update_rate_limit then Some ClientError else None)\<rparr>"

definition unreachable_env :: env where
  "unreachable_env = quiet_env\<lparr>fault := (\<lambda>op. Some Unreachable)\<rparr>"




section \<open>Properties\<close>

subsection \<open>Sequencing\<close>

lemma bind_exn_Inr_iff: "bind_exn m f = Inr y \<longleftrightarrow> (\<exists>x. m = Inr x \<and> f x = Inr y)"
  by (cases m) (simp_all add: bind_exn_def)

lemma bind_exn_Inl_iff:
  "bind_exn m f = Inl e \<longleftrightarrow> (m = Inl e \<or> (\<exists>x. m = Inr x \<and> f x = Inl e))"
  by (cases m) (simp_all add: bind_exn_def)

lemma bind_exn_Inr [simp]: "bind_exn (Inr x) f = f x"
  by (simp add: bind_exn_def)

lemma bind_exn_Inl [simp]: "bind_exn (Inl e) f = Inl e"
  by (simp add: bind_exn_def)

subsection \<open>The taxable flag\<close>

lemma LineItem_init_taxable: "LineItem_init d q p = Inr li \<Longrightarrow> taxable li"
  by (auto simp: LineItem_init_def split: json.splits Decimal.splits if_splits)

lemma parse_line_item_taxable: "parse_line_item item = Inr li \<Longrightarrow> taxable li"
  by (auto simp: parse_line_item_def bind_exn_Inr_iff dest: LineItem_init_taxable)

lemma parse_line_items_taxable: "parse_line_items items = Inr lis \<Longrightarrow> list_all taxable lis"
proof (induction items arbitrary: lis)
  case Nil
  then show ?case by simp
next
  case (Cons item rest)
  then show ?case
    by (auto simp: bind_exn_Inr_iff dest: parse_line_item_taxable)
qed

lemma InvoiceData_init_fields:
  assumes "InvoiceData_init name email address i d items rate disc nts = Inr x"
  shows "line_items x = items" and "invoice_date x = i" and "due_date x = d"
  using assms
  by (auto simp: InvoiceData_init_def split: json.splits option.splits Decimal.splits if_splits)

lemma build_invoice_data_fields:
  assumes "build_invoice_data x i d items = Inr y"
  shows "line_items y = items" and "invoice_date y = i" and "due_date y = d"
  using assms
  by (auto simp: build_invoice_data_def bind_exn_Inr_iff dest: InvoiceData_init_fields)

lemma validate_body_line_items:
  "validate_body t p = Inr x \<Longrightarrow> \<exists>items. parse_line_items items = Inr (line_items x)"
  by (auto simp: validate_body_def parse_items_of_def bind_exn_Inr_iff
           dest!: build_invoice_data_fields(1))

lemma validate_Inr_iff:
  "validate_and_parse_invoice_data t p = Inr x \<longleftrightarrow> validate_body t p = Inr x"
  by (auto simp: validate_and_parse_invoice_data_def split: sum.splits exn.splits)

lemma validated_items_all_taxable:
  "validate_and_parse_invoice_data t p = Inr x \<Longrightarrow> taxable_subtotal x = subtotal x"
proof -
  assume "validate_and_parse_invoice_data t p = Inr x"
  then have "validate_body t p = Inr x"
    by (simp add: validate_Inr_iff)
  then obtain items where "parse_line_items items = Inr (line_items x)"
    using validate_body_line_items by blast
  then have "list_all taxable (line_items x)"
    by (rule parse_line_items_taxable)
  then have "filter taxable (line_items x) = line_items x"
    by (simp add: list_all_iff)
  then show ?thesis
    by (simp add: taxable_subtotal_def subtotal_def)
qed

text \<open>
  C1. The validator builds every line item without its \<open>taxable\<close> flag, so the
  flag of the input is lost and every item counts as taxable. On the scenario's
  input (tax rate 0.10, discount 30, the second item flagged not taxable) the code
  yields subtotal 250, taxable subtotal 250, tax 22 and total 242, where the
  flags of the input give taxable subtotal 200, tax 17.60 and total 237.60.
\<close>

theorem scenario_loses_taxable_flag:
  "(case validate_and_parse_invoice_data 738905 scenario_payload of
      Inl r \<Rightarrow> False
    | Inr x \<Rightarrow> subtotal x = 250 \<and> taxable_subtotal x = 250 \<and> tax_amount x = 22
               \<and> total x = 242)"
  by code_simp

subsection \<open>Date-order correction\<close>

lemma py_get_agree:
  "\<forall>j. j \<noteq> k0 \<longrightarrow> dict_get d' j = dict_get d j \<Longrightarrow> k \<noteq> k0 \<Longrightarrow>
     py_get (JObj d') k dflt = py_get (JObj d) k dflt"
  by (simp add: py_get_def)

lemma subscript_agree:
  "\<forall>j. j \<noteq> k0 \<longrightarrow> dict_get d' j = dict_get d j \<Longrightarrow> k \<noteq> k0 \<Longrightarrow>
     subscript (JObj d') k = subscript (JObj d) k"
  by (simp add: subscript_def)

lemma build_invoice_data_agree:
  assumes "\<forall>j. j \<noteq> k0 \<longrightarrow> dict_get d' j = dict_get d j"
    and "k0 = ''due_date'' \<or> k0 = ''line_items''"
  shows "build_invoice_data (JObj d') i due lis = build_invoice_data (JObj d) i due lis"
  using assms(2)
  by (auto simp: build_invoice_data_def py_get_agree[OF assms(1)] subscript_agree[OF assms(1)])

lemma InvoiceData_init_due:
  assumes "InvoiceData_init name email address i d items rate disc nts = Inr y"
  shows "InvoiceData_init name email address i (i + 30) items rate disc nts = Inr (y\<lparr>due_date := i + 30\<rparr>)"
  using assms
  by (auto simp: InvoiceData_init_def split: json.splits option.splits Decimal.splits if_splits)

lemma build_invoice_data_due:
  assumes "build_invoice_data x i d items = Inr y"
  shows "build_invoice_data x i (i + 30) items = Inr (y\<lparr>due_date := i + 30\<rparr>)"
  using assms
  by (auto simp: build_invoice_data_def bind_exn_Inr_iff dest: InvoiceData_init_due)

lemma date_add_days_Inr_iff:
  "date_add_days d n = Inr r \<longleftrightarrow> r = d + n \<and> 1 \<le> d + n \<and> d + n \<le> MAXORDINAL"
  by (auto simp: date_add_days_def)

lemma correct_dates_Inr:
  assumes "correct_dates t i d = Inr (i1, d1)"
  shows "91 \<le> t" and "t + 365 \<le> MAXORDINAL" and "i1 = (if i < t - 90 then t else i)"
    and "d1 = (if d < i1 then i1 + 30 else d)" and "1 \<le> i1"
  using assms
  by (auto simp: correct_dates_def bind_exn_Inr_iff Let_def date_add_days_Inr_iff split: if_splits)

lemma correct_dates_late:
  assumes "91 \<le> t" "t + 365 \<le> MAXORDINAL" "i1 = (if i < t - 90 then t else i)" "d < i1"
    "i1 + 30 \<le> MAXORDINAL"
  shows "correct_dates t i d = Inr (i1, i1 + 30)"
  using assms
  by (auto simp: correct_dates_def Let_def date_add_days_def MAXORDINAL_def)

text \<open>
  C5 (as amended). Take a payload whose due date parses to a day before the
  invoice date (the invoice date as corrected for backdating), with the invoice
  date no later than 9999-12-01, so that 30 days later is still a date. Whenever
  the validator accepts the payload with some in-order due date in its place, it
  accepts this one too, and the result is the same invoice with the due date set
  to the invoice date plus 30 days.
\<close>

theorem due_date_order_corrected:
  assumes twin: "dict_get p ''data'' = Some (JObj d)" "dict_get p' ''data'' = Some (JObj d')"
      "\<forall>k. k \<noteq> ''due_date'' \<longrightarrow> dict_get d' k = dict_get d k"
    and accepted: "validate_and_parse_invoice_data t p' = Inr y"
    and due: "dict_get d ''due_date'' = Some raw" "date_fromisoformat raw = Inr due0"
      "due0 < invoice_date y"
    and fits: "invoice_date y + 30 \<le> MAXORDINAL"
  shows "validate_and_parse_invoice_data t p = Inr (y\<lparr>due_date := invoice_date y + 30\<rparr>)"
proof -
  note get = py_get_agree[OF twin(3)] and sub = subscript_agree[OF twin(3)]
  have p': "py_get (JObj p') ''data'' (JObj []) = Inr (JObj d')"
    and p: "py_get (JObj p) ''data'' (JObj []) = Inr (JObj d)"
    using twin(1,2) by (simp_all add: py_get_def)
  from accepted have "validate_body t p' = Inr y"
    by (simp add: validate_Inr_iff)
  then obtain lis inv0 due0' inv1 due1 where
    items': "parse_items_of (JObj d') = Inr lis"
    and dates': "parse_dates (JObj d') = Inr (inv0, due0')"
    and corr': "correct_dates t inv0 due0' = Inr (inv1, due1)"
    and build': "build_invoice_data (JObj d') inv1 due1 lis = Inr y"
    unfolding validate_body_def p' by (auto simp: bind_exn_Inr_iff)
  have inv: "invoice_date y = inv1"
    using build_invoice_data_fields(2)[OF build'] .
  have items: "parse_items_of (JObj d) = Inr lis"
    using items' by (simp add: parse_items_of_def get)
  have "subscript (JObj d) ''invoice_date'' = subscript (JObj d') ''invoice_date''"
    by (simp add: sub)
  moreover have "subscript (JObj d) ''due_date'' = Inr raw"
    using due(1) by (simp add: subscript_def)
  ultimately have dates: "parse_dates (JObj d) = Inr (inv0, due0)"
    using dates' due(2) by (auto simp: parse_dates_def bind_exn_Inr_iff)
  have corr: "correct_dates t inv0 due0 = Inr (inv1, inv1 + 30)"
    using correct_dates_Inr(1,2,3)[OF corr'] due(3) fits inv
    by (intro correct_dates_late) simp_all
  have build: "build_invoice_data (JObj d) inv1 (inv1 + 30) lis = Inr (y\<lparr>due_date := inv1 + 30\<rparr>)"
    using build_invoice_data_due[OF build'] build_invoice_data_agree[OF twin(3)] by simp
  have "validate_body t p = Inr (y\<lparr>due_date := inv1 + 30\<rparr>)"
    unfolding validate_body_def p using items dates corr build by simp
  then show ?thesis
    by (simp add: validate_Inr_iff inv)
qed

theorem due_date_order_corrected_witness:
  "validate_and_parse_invoice_data 738905 (payload_of in_order_data) = Inr in_order_invoice
   \<and> validate_and_parse_invoice_data 738905 (payload_of late_due_data)
       = Inr (in_order_invoice\<lparr>due_date := 738930\<rparr>)"
proof -
  have a: "dict_get (payload_of late_due_data) ''data'' = Some (JObj late_due_data)"
    and b: "dict_get (payload_of in_order_data) ''data'' = Some (JObj in_order_data)"
    by (simp_all add: payload_of_def dict_get_def)
  have c: "\<forall>k. k \<noteq> ''due_date'' \<longrightarrow> dict_get in_order_data k = dict_get late_due_data k"
    by (simp add: in_order_data_def late_due_data_def dict_get_def)
  have d: "validate_and_parse_invoice_data 738905 (payload_of in_order_data) = Inr in_order_invoice"
    by code_simp
  have e: "dict_get late_due_data ''due_date'' = Some (JStr ''2024-01-01'')"
    by (simp add: late_due_data_def dict_get_def)
  have f: "date_fromisoformat (JStr ''2024-01-01'') = Inr 738886"
    by code_simp
  have g: "738886 < invoice_date in_order_invoice"
    and h: "invoice_date in_order_invoice + 30 \<le> MAXORDINAL"
    by (simp_all add: in_order_invoice_def MAXORDINAL_def)
  from due_date_order_corrected[OF a b c d e f g h] d show ?thesis
    by (simp add: in_order_invoice_def)
qed

text \<open>
  The claim as stated fails at the end of the calendar: an invoice dated
  9999-12-15 and due 9999-12-01 is valid in every other respect, but the corrected
  due date would lie beyond \<open>date.max\<close>, the addition raises \<open>OverflowError\<close>,
  and the payload is rejected.
\<close>

theorem due_before_invoice_rejected_at_date_max:
  "date_fromisoformat (JStr ''9999-12-15'') = Inr 3652043
   \<and> date_fromisoformat (JStr ''9999-12-01'') = Inr 3652029
   \<and> validate_and_parse_invoice_data 738905 (payload_of overflow_data)
       = Inl Failed_to_parse_invoice_data"
  by code_simp

subsection \<open>Missing fields\<close>

lemma validate_Missing_iff:
  "validate_and_parse_invoice_data t p = Inl (Missing_required_field k)
     \<longleftrightarrow> validate_body t p = Inl (KeyError k)"
  by (auto simp: validate_and_parse_invoice_data_def split: sum.splits exn.splits if_splits)

lemma subscript_KeyError_iff:
  "subscript x k' = Inl (KeyError k) \<longleftrightarrow> (\<exists>d. x = JObj d \<and> dict_get d k = None \<and> k' = k)"
  by (auto simp: subscript_def split: json.splits option.splits)

lemma py_get_not_KeyError [simp]: "py_get x k' dflt \<noteq> Inl (KeyError k)"
  by (auto simp: py_get_def split: json.splits option.splits)

lemma py_get_Inr_dict: "py_get x k dflt = Inr v \<Longrightarrow> \<exists>d. x = JObj d"
  by (auto simp: py_get_def split: json.splits option.splits)

lemma iterate_not_KeyError [simp]: "iterate x \<noteq> Inl (KeyError k)"
  by (auto simp: iterate_def split: json.splits)

lemma Decimal_of_str_not_KeyError [simp]: "Decimal_of_str x \<noteq> Inl (KeyError k)"
  by (auto simp: Decimal_of_str_def Decimal_of_string_def Let_def
           split: json.splits option.splits Decimal.splits prod.splits)

lemma date_fromisoformat_not_KeyError [simp]: "date_fromisoformat x \<noteq> Inl (KeyError k)"
  by (auto simp: date_fromisoformat_def Let_def split: json.splits)

lemma date_add_days_not_KeyError [simp]: "date_add_days d n \<noteq> Inl (KeyError k)"
  by (auto simp: date_add_days_def)

lemma LineItem_init_not_KeyError [simp]: "LineItem_init d q pr \<noteq> Inl (KeyError k)"
  by (auto simp: LineItem_init_def split: json.splits Decimal.splits)

lemma InvoiceData_init_not_KeyError [simp]:
  "InvoiceData_init name email address i d items rate disc nts \<noteq> Inl (KeyError k)"
  by (auto simp: InvoiceData_init_def split: json.splits option.splits Decimal.splits)

lemma correct_dates_not_KeyError [simp]: "correct_dates t i d \<noteq> Inl (KeyError k)"
  by (simp add: correct_dates_def date_add_days_def Let_def)

text \<open>The first key a line item lacks, in the order the constructor call reads them.\<close>

lemma parse_line_item_KeyError_iff:
  "parse_line_item item = Inl (KeyError k) \<longleftrightarrow>
     (\<exists>flds. item = JObj flds \<and> dict_get flds k = None \<and>
        (k = ''description''
         \<or> k = ''quantity'' \<and> dict_get flds ''description'' \<noteq> None
         \<or> k = ''unit_price'' \<and> dict_get flds ''description'' \<noteq> None
             \<and> (\<exists>q v. dict_get flds ''quantity'' = Some q \<and> Decimal_of_str q = Inr v)))"
  by (cases item)
     (auto simp: parse_line_item_def bind_exn_Inl_iff subscript_def split: option.splits)

lemma parse_line_items_KeyError:
  "parse_line_items items = Inl (KeyError k) \<Longrightarrow>
     \<exists>flds. JObj flds \<in> set items \<and> dict_get flds k = None
            \<and> (k = ''description'' \<or> k = ''quantity'' \<or> k = ''unit_price'')"
proof (induction items)
  case Nil
  then show ?case by simp
next
  case (Cons item rest)
  then show ?case
    by (auto simp: bind_exn_Inl_iff parse_line_item_KeyError_iff)
qed

lemma parse_line_items_first_failure:
  "parse_line_items pre = Inr ps \<Longrightarrow> parse_line_item item = Inl e \<Longrightarrow>
     parse_line_items (pre @ item # post) = Inl e"
  by (induction pre arbitrary: ps) (auto simp: bind_exn_Inr_iff)

lemma iterate_JObj_items:
  "iterate raw = Inr items \<Longrightarrow> JObj flds \<in> set items \<Longrightarrow> raw = JArr items"
  by (auto simp: iterate_def split: json.splits)

lemma parse_items_of_KeyError:
  assumes "parse_items_of x = Inl (KeyError k)"
  shows "\<exists>d items flds. x = JObj d \<and> dict_get d ''line_items'' = Some (JArr items)
           \<and> JObj flds \<in> set items \<and> dict_get flds k = None
           \<and> (k = ''description'' \<or> k = ''quantity'' \<or> k = ''unit_price'')"
proof -
  from assms obtain raw items where raw: "py_get x ''line_items'' (JArr []) = Inr raw"
    and items: "iterate raw = Inr items" and err: "parse_line_items items = Inl (KeyError k)"
    by (auto simp: parse_items_of_def bind_exn_Inl_iff)
  from err obtain flds where f: "JObj flds \<in> set items" "dict_get flds k = None"
    "k = ''description'' \<or> k = ''quantity'' \<or> k = ''unit_price''"
    using parse_line_items_KeyError by blast
  have r: "raw = JArr items"
    using iterate_JObj_items[OF items f(1)] .
  from raw obtain d where d: "x = JObj d"
    using py_get_Inr_dict by blast
  from raw r d f(1) have "dict_get d ''line_items'' = Some (JArr items)"
    by (auto simp: py_get_def split: option.splits)
  with d f show ?thesis by blast
qed

lemma parse_dates_KeyError:
  "parse_dates x = Inl (KeyError k) \<Longrightarrow>
     \<exists>d. x = JObj d \<and> dict_get d k = None \<and> (k = ''invoice_date'' \<or> k = ''due_date'')"
  by (auto simp: parse_dates_def bind_exn_Inl_iff subscript_KeyError_iff)

lemma build_invoice_data_KeyError:
  "build_invoice_data x i due lis = Inl (KeyError k) \<Longrightarrow>
     \<exists>d. x = JObj d \<and> dict_get d k = None \<and> k = ''customer_name''"
  by (auto simp: build_invoice_data_def bind_exn_Inl_iff subscript_KeyError_iff)

lemma validate_body_KeyError:
  assumes "validate_body t p = Inl (KeyError k)"
  shows "\<exists>x. py_get (JObj p) ''data'' (JObj []) = Inr x \<and>
           (parse_items_of x = Inl (KeyError k)
            \<or> parse_dates x = Inl (KeyError k)
            \<or> (\<exists>i due lis. build_invoice_data x i due lis = Inl (KeyError k)))"
proof (cases "py_get (JObj p) ''data'' (JObj [])")
  case (Inl e)
  with assms show ?thesis by (simp add: validate_body_def)
next
  case x: (Inr x)
  show ?thesis
  proof (cases "parse_items_of x")
    case (Inl e)
    with assms x show ?thesis by (simp add: validate_body_def)
  next
    case lis: (Inr lis)
    show ?thesis
    proof (cases "parse_dates x")
      case (Inl e)
      with assms x lis show ?thesis by (simp add: validate_body_def)
    next
      case (Inr dates)
      obtain inv0 due0 where dates: "parse_dates x = Inr (inv0, due0)"
        using Inr by (cases dates) simp
      show ?thesis
      proof (cases "correct_dates t inv0 due0")
        case (Inl e)
        with assms x lis dates show ?thesis by (simp add: validate_body_def)
      next
        case (Inr corrected)
        then obtain inv1 due1 where "correct_dates t inv0 due0 = Inr (inv1, due1)"
          by (cases corrected) simp
        with assms x lis dates have "build_invoice_data x inv1 due1 lis = Inl (KeyError k)"
          by (simp add: validate_body_def)
        with x show ?thesis by (intro exI[of _ x] conjI disjI2 exI) assumption+
      qed
    qed
  qed
qed

lemma missing_field_only_if:
  assumes "validate_and_parse_invoice_data t p = Inl (Missing_required_field k)"
  shows "\<exists>d. py_get (JObj p) ''data'' (JObj []) = Inr (JObj d) \<and>
           ((k = ''invoice_date'' \<or> k = ''due_date'' \<or> k = ''customer_name'') \<and> dict_get d k = None
            \<or> (k = ''description'' \<or> k = ''quantity'' \<or> k = ''unit_price'') \<and>
              (\<exists>items flds. dict_get d ''line_items'' = Some (JArr items) \<and> JObj flds \<in> set items
                 \<and> dict_get flds k = None))"
proof -
  from assms have "validate_body t p = Inl (KeyError k)"
    by (simp add: validate_Missing_iff)
  from validate_body_KeyError[OF this] obtain x where x: "py_get (JObj p) ''data'' (JObj []) = Inr x"
    and rest: "parse_items_of x = Inl (KeyError k)
       \<or> parse_dates x = Inl (KeyError k)
       \<or> (\<exists>i due lis. build_invoice_data x i due lis = Inl (KeyError k))"
    by (elim exE conjE)
  from rest show ?thesis
  proof (elim disjE exE)
    assume "parse_items_of x = Inl (KeyError k)"
    from parse_items_of_KeyError[OF this] obtain d items flds where
      "x = JObj d" "dict_get d ''line_items'' = Some (JArr items)" "JObj flds \<in> set items"
      "dict_get flds k = None" "k = ''description'' \<or> k = ''quantity'' \<or> k = ''unit_price''"
      by (elim exE conjE)
    then have "py_get (JObj p) ''data'' (JObj []) = Inr (JObj d) \<and>
           ((k = ''description'' \<or> k = ''quantity'' \<or> k = ''unit_price'') \<and>
              (\<exists>items flds. dict_get d ''line_items'' = Some (JArr items) \<and> JObj flds \<in> set items
                 \<and> dict_get flds k = None))"
      using x by (intro conjI exI[of _ items] exI[of _ flds]) simp_all
    then show ?thesis by (intro exI[of _ d]) simp
  next
    assume "parse_dates x = Inl (KeyError k)"
    from parse_dates_KeyError[OF this] obtain d where
      "x = JObj d" "dict_get d k = None" "k = ''invoice_date'' \<or> k = ''due_date''"
      by (elim exE conjE)
    then have "py_get (JObj p) ''data'' (JObj []) = Inr (JObj d) \<and>
        (k = ''invoice_date'' \<or> k = ''due_date'' \<or> k = ''customer_name'') \<and> dict_get d k = None"
      using x by (elim disjE) simp_all
    then show ?thesis by (intro exI[of _ d]) simp
  next
    fix i due lis assume "build_invoice_data x i due lis = Inl (KeyError k)"
    from build_invoice_data_KeyError[OF this] obtain d where
      "x = JObj d" "dict_get d k = None" "k = ''customer_name''"
      by (elim exE conjE)
    then have "py_get (JObj p) ''data'' (JObj []) = Inr (JObj d) \<and>
        (k = ''invoice_date'' \<or> k = ''due_date'' \<or> k = ''customer_name'') \<and> dict_get d k = None"
      using x by simp
    then show ?thesis by (intro exI[of _ d]) simp
  qed
qed

lemma InvoiceData_init_no_items:
  "InvoiceData_init name email address i d [] rate disc nts = Inl ValidationError"
  by (simp add: InvoiceData_init_def split: json.splits option.splits Decimal.splits)

lemma build_invoice_data_no_items:
  "build_invoice_data x i d lis = Inr y \<Longrightarrow> build_invoice_data x i d [] = Inl ValidationError"
  by (auto simp: build_invoice_data_def bind_exn_Inr_iff InvoiceData_init_no_items)

lemma missing_invoice_date:
  assumes "py_get (JObj p) ''data'' (JObj []) = Inr (JObj d)"
    and "parse_items_of (JObj d) = Inr lis"
    and "dict_get d ''invoice_date'' = None"
  shows "validate_and_parse_invoice_data t p = Inl (Missing_required_field ''invoice_date'')"
  using assms
  by (simp add: validate_Missing_iff validate_body_def parse_dates_def subscript_def)

lemma missing_due_date:
  assumes "py_get (JObj p) ''data'' (JObj []) = Inr (JObj d)"
    and "parse_items_of (JObj d) = Inr lis"
    and "dict_get d ''invoice_date'' = Some ri" "date_fromisoformat ri = Inr inv0"
    and "dict_get d ''due_date'' = None"
  shows "validate_and_parse_invoice_data t p = Inl (Missing_required_field ''due_date'')"
  using assms
  by (simp add: validate_Missing_iff validate_body_def parse_dates_def subscript_def)

lemma missing_customer_name:
  assumes "py_get (JObj p) ''data'' (JObj []) = Inr (JObj d)"
    and "parse_items_of (JObj d) = Inr lis"
    and "parse_dates (JObj d) = Inr (inv0, due0)"
    and "correct_dates t inv0 due0 = Inr (inv1, due1)"
    and "dict_get d ''customer_name'' = None"
  shows "validate_and_parse_invoice_data t p = Inl (Missing_required_field ''customer_name'')"
  using assms
  by (simp add: validate_Missing_iff validate_body_def build_invoice_data_def subscript_def)

lemma missing_item_key:
  assumes "py_get (JObj p) ''data'' (JObj []) = Inr (JObj d)"
    and "dict_get d ''line_items'' = Some (JArr (pre @ item # post))"
    and "parse_line_items pre = Inr ps"
    and "parse_line_item item = Inl (KeyError k)"
  shows "validate_and_parse_invoice_data t p = Inl (Missing_required_field k)"
proof -
  have "parse_items_of (JObj d) = Inl (KeyError k)"
    using assms(2) parse_line_items_first_failure[OF assms(3,4)]
    by (simp add: parse_items_of_def py_get_def iterate_def)
  with assms(1) show ?thesis
    by (simp add: validate_Missing_iff validate_body_def)
qed

lemma no_line_items_rejected:
  assumes twin: "dict_get p ''data'' = Some (JObj d)" "dict_get p' ''data'' = Some (JObj d')"
      "\<forall>k. k \<noteq> ''line_items'' \<longrightarrow> dict_get d' k = dict_get d k"
    and accepted: "validate_and_parse_invoice_data t p' = Inr y"
    and none: "dict_get d ''line_items'' = None \<or> dict_get d ''line_items'' = Some (JArr [])"
  shows "validate_and_parse_invoice_data t p = Inl Invalid_data_format"
proof -
  note sub = subscript_agree[OF twin(3)]
  have p': "py_get (JObj p') ''data'' (JObj []) = Inr (JObj d')"
    and p: "py_get (JObj p) ''data'' (JObj []) = Inr (JObj d)"
    using twin(1,2) by (simp_all add: py_get_def)
  from accepted have "validate_body t p' = Inr y"
    by (simp add: validate_Inr_iff)
  then obtain lis inv0 due0 inv1 due1 where
    dates': "parse_dates (JObj d') = Inr (inv0, due0)"
    and corr: "correct_dates t inv0 due0 = Inr (inv1, due1)"
    and build': "build_invoice_data (JObj d') inv1 due1 lis = Inr y"
    unfolding validate_body_def p' by (auto simp: bind_exn_Inr_iff)
  have items: "parse_items_of (JObj d) = Inr []"
    using none by (auto simp: parse_items_of_def py_get_def iterate_def)
  have dates: "parse_dates (JObj d) = Inr (inv0, due0)"
    using dates' by (simp add: parse_dates_def sub)
  have "build_invoice_data (JObj d) inv1 due1 lis = Inr y"
    using build' build_invoice_data_agree[OF twin(3)] by simp
  then have "build_invoice_data (JObj d) inv1 due1 [] = Inl ValidationError"
    by (rule build_invoice_data_no_items)
  then have "validate_body t p = Inl ValidationError"
    unfolding validate_body_def p using items dates corr by simp
  then show ?thesis
    by (simp add: validate_and_parse_invoice_data_def)
qed

text \<open>
  C6 (as amended). A rejection for a missing field names a key that is really
  absent: \<open>invoice_date\<close>, \<open>due_date\<close> or \<open>customer_name\<close> in the data object, or
  \<open>description\<close>, \<open>quantity\<close> or \<open>unit_price\<close> in a line item. Conversely the
  first absent key met, in the order line items, \<open>invoice_date\<close>, \<open>due_date\<close>,
  \<open>customer_name\<close>, is reported as missing: a line item that lacks a key after
  items that parse; \<open>invoice_date\<close> when the line items parse; \<open>due_date\<close> when
  moreover the invoice date parses; \<open>customer_name\<close> when moreover both dates
  parse and are corrected. So \<open>invoice_date\<close> is a required key. A payload
  without line items, accepted once it is given some, is rejected as an invalid
  data format and not as a missing field.
\<close>

theorem missing_field_rejections:
  "(validate_and_parse_invoice_data t p = Inl (Missing_required_field k) \<longrightarrow>
      (\<exists>d. py_get (JObj p) ''data'' (JObj []) = Inr (JObj d) \<and>
         ((k = ''invoice_date'' \<or> k = ''due_date'' \<or> k = ''customer_name'') \<and> dict_get d k = None
          \<or> (k = ''description'' \<or> k = ''quantity'' \<or> k = ''unit_price'') \<and>
            (\<exists>items flds. dict_get d ''line_items'' = Some (JArr items) \<and> JObj flds \<in> set items
               \<and> dict_get flds k = None))))
   \<and> (py_get (JObj p) ''data'' (JObj []) = Inr (JObj d) \<longrightarrow>
        (dict_get d ''line_items'' = Some (JArr (pre @ item # post))
           \<and> parse_line_items pre = Inr ps \<and> parse_line_item item = Inl (KeyError k) \<longrightarrow>
         validate_and_parse_invoice_data t p = Inl (Missing_required_field k))
      \<and> (parse_items_of (JObj d) = Inr lis \<longrightarrow>
          (dict_get d ''invoice_date'' = None \<longrightarrow>
             validate_and_parse_invoice_data t p = Inl (Missing_required_field ''invoice_date''))
        \<and> (dict_get d ''invoice_date'' = Some ri \<and> date_fromisoformat ri = Inr inv0
             \<and> dict_get d ''due_date'' = None \<longrightarrow>
             validate_and_parse_invoice_data t p = Inl (Missing_required_field ''due_date''))
        \<and> (parse_dates (JObj d) = Inr (inv0, due0) \<and> correct_dates t inv0 due0 = Inr (inv1, due1)
             \<and> dict_get d ''customer_name'' = None \<longrightarrow>
             validate_and_parse_invoice_data t p = Inl (Missing_required_field ''customer_name''))))
   \<and> (dict_get p ''data'' = Some (JObj d) \<and> dict_get p' ''data'' = Some (JObj d')
        \<and> (\<forall>j. j \<noteq> ''line_items'' \<longrightarrow> dict_get d' j = dict_get d j)
        \<and> validate_and_parse_invoice_data t p' = Inr y
        \<and> (dict_get d ''line_items'' = None \<or> dict_get d ''line_items'' = Some (JArr [])) \<longrightarrow>
        validate_and_parse_invoice_data t p = Inl Invalid_data_format)"
proof (intro conjI impI)
  assume "validate_and_parse_invoice_data t p = Inl (Missing_required_field k)"
  then show "\<exists>d. py_get (JObj p) ''data'' (JObj []) = Inr (JObj d) \<and>
         ((k = ''invoice_date'' \<or> k = ''due_date'' \<or> k = ''customer_name'') \<and> dict_get d k = None
          \<or> (k = ''description'' \<or> k = ''quantity'' \<or> k = ''unit_price'') \<and>
            (\<exists>items flds. dict_get d ''line_items'' = Some (JArr items) \<and> JObj flds \<in> set items
               \<and> dict_get flds k = None))"
    by (rule missing_field_only_if)
next
  assume "py_get (JObj p) ''data'' (JObj []) = Inr (JObj d)"
    and "dict_get d ''line_items'' = Some (JArr (pre @ item # post))
           \<and> parse_line_items pre = Inr ps \<and> parse_line_item item = Inl (KeyError k)"
  then show "validate_and_parse_invoice_data t p = Inl (Missing_required_field k)"
    by (elim conjE) (rule missing_item_key)
next
  assume "py_get (JObj p) ''data'' (JObj []) = Inr (JObj d)" "parse_items_of (JObj d) = Inr lis"
    "dict_get d ''invoice_date'' = None"
  then show "validate_and_parse_invoice_data t p = Inl (Missing_required_field ''invoice_date'')"
    by (rule missing_invoice_date)
next
  assume "py_get (JObj p) ''data'' (JObj []) = Inr (JObj d)" "parse_items_of (JObj d) = Inr lis"
    and "dict_get d ''invoice_date'' = Some ri \<and> date_fromisoformat ri = Inr inv0
             \<and> dict_get d ''due_date'' = None"
  then show "validate_and_parse_invoice_data t p = Inl (Missing_required_field ''due_date'')"
    by (elim conjE) (rule missing_due_date)
next
  assume "py_get (JObj p) ''data'' (JObj []) = Inr (JObj d)" "parse_items_of (JObj d) = Inr lis"
    and "parse_dates (JObj d) = Inr (inv0, due0) \<and> correct_dates t inv0 due0 = Inr (inv1, due1)
             \<and> dict_get d ''customer_name'' = None"
  then show "validate_and_parse_invoice_data t p = Inl (Missing_required_field ''customer_name'')"
    by (elim conjE) (rule missing_customer_name)
next
  assume "dict_get p ''data'' = Some (JObj d) \<and> dict_get p' ''data'' = Some (JObj d')
        \<and> (\<forall>j. j \<noteq> ''line_items'' \<longrightarrow> dict_get d' j = dict_get d j)
        \<and> validate_and_parse_invoice_data t p' = Inr y
        \<and> (dict_get d ''line_items'' = None \<or> dict_get d ''line_items'' = Some (JArr []))"
  then show "validate_and_parse_invoice_data t p = Inl Invalid_data_format"
    by (elim conjE) (rule no_line_items_rejected)
qed

theorem missing_field_rejections_witness:
  "validate_and_parse_invoice_data 738905 (payload_of no_invoice_date_data)
     = Inl (Missing_required_field ''invoice_date'')
   \<and> dict_get no_invoice_date_data ''invoice_date'' = None
   \<and> validate_and_parse_invoice_data 738905 (payload_of no_due_date_data)
     = Inl (Missing_required_field ''due_date'')
   \<and> validate_and_parse_invoice_data 738905 (payload_of no_customer_data)
     = Inl (Missing_required_field ''customer_name'')
   \<and> validate_and_parse_invoice_data 738905 (payload_of no_price_data)
     = Inl (Missing_required_field ''unit_price'')
   \<and> validate_and_parse_invoice_data 738905 (payload_of in_order_data) = Inr in_order_invoice
   \<and> validate_and_parse_invoice_data 738905 (payload_of no_items_data) = Inl Invalid_data_format"
proof -
  have data: "py_get (JObj (payload_of x)) ''data'' (JObj []) = Inr (JObj x)"
    and data': "dict_get (payload_of x) ''data'' = Some (JObj x)" for x
    by (simp_all add: payload_of_def py_get_def dict_get_def)
  have li: "parse_line_item one_item
              = Inr \<lparr>description = ''Design'', quantity = 2, unit_price = 100, taxable = True\<rparr>"
    by code_simp
  have items: "parse_items_of (JObj no_invoice_date_data)
              = Inr [\<lparr>description = ''Design'', quantity = 2, unit_price = 100, taxable = True\<rparr>]"
    "parse_items_of (JObj no_due_date_data)
              = Inr [\<lparr>description = ''Design'', quantity = 2, unit_price = 100, taxable = True\<rparr>]"
    "parse_items_of (JObj no_customer_data)
              = Inr [\<lparr>description = ''Design'', quantity = 2, unit_price = 100, taxable = True\<rparr>]"
    by (simp_all add: parse_items_of_def py_get_def dict_get_def iterate_def li
          no_invoice_date_data_def no_due_date_data_def no_customer_data_def)
  have absent: "dict_get no_invoice_date_data ''invoice_date'' = None"
    "dict_get no_due_date_data ''due_date'' = None"
    "dict_get no_customer_data ''customer_name'' = None"
    by (simp_all add: no_invoice_date_data_def no_due_date_data_def no_customer_data_def dict_get_def)
  have a: "validate_and_parse_invoice_data 738905 (payload_of no_invoice_date_data)
     = Inl (Missing_required_field ''invoice_date'')"
    using missing_field_rejections[where t = 738905 and p = "payload_of no_invoice_date_data"
        and d = no_invoice_date_data] data items(1) absent(1)
    by simp
  have inv_date: "dict_get no_due_date_data ''invoice_date'' = Some (JStr ''2024-01-15'')"
    by (simp add: no_due_date_data_def dict_get_def)
  have iso: "date_fromisoformat (JStr ''2024-01-15'') = Inr 738900"
    by code_simp
  have b: "validate_and_parse_invoice_data 738905 (payload_of no_due_date_data)
     = Inl (Missing_required_field ''due_date'')"
    using missing_field_rejections[where t = 738905 and p = "payload_of no_due_date_data"
        and d = no_due_date_data and ri = "JStr ''2024-01-15''" and ?inv0.0 = 738900]
      data items(2) absent(2) inv_date iso
    by simp
  have dates: "parse_dates (JObj no_customer_data) = Inr (738900, 738917)"
    by code_simp
  have corr: "correct_dates 738905 738900 738917 = Inr (738900, 738917)"
    by code_simp
  have c: "validate_and_parse_invoice_data 738905 (payload_of no_customer_data)
     = Inl (Missing_required_field ''customer_name'')"
    using missing_field_rejections[where t = 738905 and p = "payload_of no_customer_data"
        and d = no_customer_data and ?inv0.0 = 738900 and ?due0.0 = 738917
        and ?inv1.0 = 738900 and ?due1.0 = 738917]
      data items(3) absent(3) dates corr
    by simp
  have lis: "dict_get no_price_data ''line_items''
      = Some (JArr ([one_item] @ JObj [(''description'', JStr ''Hosting''), (''quantity'', JStr ''1'')] # []))"
    by (simp add: no_price_data_def dict_get_def)
  have pre: "parse_line_items [one_item]
      = Inr [\<lparr>description = ''Design'', quantity = 2, unit_price = 100, taxable = True\<rparr>]"
    by (simp add: li)
  have bad: "parse_line_item (JObj [(''description'', JStr ''Hosting''), (''quantity'', JStr ''1'')])
      = Inl (KeyError ''unit_price'')"
    by code_simp
  have d: "validate_and_parse_invoice_data 738905 (payload_of no_price_data)
     = Inl (Missing_required_field ''unit_price'')"
    using missing_field_rejections[where t = 738905 and p = "payload_of no_price_data"
        and d = no_price_data and pre = "[one_item]" and post = "[]" and k = "''unit_price''"
        and item = "JObj [(''description'', JStr ''Hosting''), (''quantity'', JStr ''1'')]"]
      data lis pre bad
    by simp
  have agree: "\<forall>j. j \<noteq> ''line_items'' \<longrightarrow> dict_get in_order_data j = dict_get no_items_data j"
    by (simp add: in_order_data_def no_items_data_def dict_get_def)
  have ok: "validate_and_parse_invoice_data 738905 (payload_of in_order_data) = Inr in_order_invoice"
    by code_simp
  have none: "dict_get no_items_data ''line_items'' = None"
    by (simp add: no_items_data_def dict_get_def)
  have e: "validate_and_parse_invoice_data 738905 (payload_of no_items_data) = Inl Invalid_data_format"
    using missing_field_rejections[where t = 738905 and p = "payload_of no_items_data"
        and d = no_items_data and p' = "payload_of in_order_data" and d' = in_order_data
        and y = in_order_invoice]
      data' agree ok none
    by simp
  from a b c d e ok absent(1) show ?thesis by simp
qed

text \<open>
  The claim as stated fails twice: a payload that omits only \<open>invoice_date\<close> is
  rejected for a missing field, and a payload that omits only its line items is
  rejected for another reason.
\<close>

theorem invoice_date_is_required:
  "validate_and_parse_invoice_data 738905 (payload_of no_invoice_date_data)
     = Inl (Missing_required_field ''invoice_date'')
   \<and> validate_and_parse_invoice_data 738905 (payload_of no_items_data) = Inl Invalid_data_format"
  by code_simp

subsection \<open>Stripping\<close>

lemma rstrip_append: "s = rstrip s @ rev (takeWhile isspace (rev s))"
proof -
  have "rev (takeWhile isspace (rev s) @ dropWhile isspace (rev s)) = s"
    by (simp only: takeWhile_dropWhile_id rev_rev_ident)
  then show ?thesis
    by (simp only: rev_append rstrip_def)
qed

lemma lstrip_hd: "lstrip s \<noteq> [] \<Longrightarrow> \<not> isspace (hd (lstrip s))"
  unfolding lstrip_def by (rule hd_dropWhile)

lemma rstrip_last: "rstrip s \<noteq> [] \<Longrightarrow> \<not> isspace (last (rstrip s))"
proof -
  assume "rstrip s \<noteq> []"
  then have ne: "dropWhile isspace (rev s) \<noteq> []"
    by (simp add: rstrip_def)
  then have "\<not> isspace (hd (dropWhile isspace (rev s)))"
    by (rule hd_dropWhile)
  with ne show ?thesis
    by (simp add: rstrip_def last_rev)
qed

lemma rstrip_hd: "rstrip s \<noteq> [] \<Longrightarrow> hd (rstrip s) = hd s"
  by (metis hd_append2 rstrip_append)

lemma strip_ends:
  "strip s \<noteq> [] \<Longrightarrow> \<not> isspace (hd (strip s)) \<and> \<not> isspace (last (strip s))"
proof -
  assume ne: "strip s \<noteq> []"
  then have "lstrip s \<noteq> []"
    by (auto simp: strip_def rstrip_def)
  then have "\<not> isspace (hd (lstrip s))"
    by (rule lstrip_hd)
  moreover have "hd (strip s) = hd (lstrip s)"
    using ne by (simp add: strip_def rstrip_hd)
  moreover have "\<not> isspace (last (strip s))"
    using ne by (simp add: strip_def rstrip_last)
  ultimately show ?thesis by simp
qed

lemma lstrip_id: "s \<noteq> [] \<Longrightarrow> \<not> isspace (hd s) \<Longrightarrow> lstrip s = s"
  by (cases s) (simp_all add: lstrip_def)

lemma rstrip_id: "s \<noteq> [] \<Longrightarrow> \<not> isspace (last s) \<Longrightarrow> rstrip s = s"
proof -
  assume "s \<noteq> []" "\<not> isspace (last s)"
  then have "rev s \<noteq> []" "\<not> isspace (hd (rev s))"
    by (simp_all add: hd_rev)
  then have "dropWhile isspace (rev s) = rev s"
    by (cases "rev s") simp_all
  then show ?thesis
    by (simp add: rstrip_def)
qed

lemma strip_id: "s = [] \<or> \<not> isspace (hd s) \<and> \<not> isspace (last s) \<Longrightarrow> strip s = s"
proof (cases "s = []")
  case True
  then show ?thesis by (simp add: strip_def lstrip_def rstrip_def)
next
  case False
  assume "s = [] \<or> \<not> isspace (hd s) \<and> \<not> isspace (last s)"
  with False show ?thesis by (simp add: strip_def lstrip_id rstrip_id)
qed

lemma strip_strip: "strip (strip s) = strip s"
  using strip_ends[of s] by (intro strip_id) blast

lemma lstrip_spaces: "list_all isspace pre \<Longrightarrow> lstrip (pre @ s) = lstrip s"
  using dropWhile_append2[of pre isspace s] by (simp add: lstrip_def list_all_iff)

lemma rstrip_spaces: "list_all isspace post \<Longrightarrow> rstrip (s @ post) = rstrip s"
  using dropWhile_append2[of "rev post" isspace "rev s"] by (simp add: rstrip_def list_all_iff)

lemma strip_spaces_around:
  assumes "list_all isspace pre" "list_all isspace post" "s \<noteq> []"
    "\<not> isspace (hd s)" "\<not> isspace (last s)"
  shows "strip (pre @ s @ post) = s"
proof -
  have "lstrip (pre @ s @ post) = s @ post"
    using assms(1,3,4) by (simp add: lstrip_spaces lstrip_id)
  then show ?thesis
    using assms(2,3,5) by (simp add: strip_def rstrip_spaces rstrip_id)
qed

subsection \<open>The extractor\<close>

lemma startswith_iff: "startswith s p \<longleftrightarrow> (\<exists>r. s = p @ r)"
proof
  assume "startswith s p"
  then have "s = p @ drop (length p) s"
    by (metis append_take_drop_id startswith_def)
  then show "\<exists>r. s = p @ r" ..
next
  assume "\<exists>r. s = p @ r"
  then show "startswith s p"
    by (auto simp: startswith_def)
qed

lemma endswith_iff: "endswith s p \<longleftrightarrow> (\<exists>r. s = r @ p)"
proof
  assume e: "endswith s p"
  then have "s = take (length s - length p) s @ p"
    by (metis append_take_drop_id endswith_def)
  then show "\<exists>r. s = r @ p" ..
next
  assume "\<exists>r. s = r @ p"
  then show "endswith s p"
    by (auto simp: endswith_def)
qed

lemma startswith_append [simp]: "startswith (p @ r) p"
  by (simp add: startswith_def)

lemma endswith_append [simp]: "endswith (r @ p) p"
  by (simp add: endswith_def)

lemma backtick_not_space [simp]: "\<not> isspace (CHR 0x60)"
  by (simp add: isspace_def)

lemma json_str_of_ends:
  "json_str_of response = [] \<or>
     \<not> isspace (hd (json_str_of response)) \<and> \<not> isspace (last (json_str_of response))"
proof -
  obtain s where "json_str_of response = strip s"
    by (simp add: json_str_of_def Let_def)
  then show ?thesis
    using strip_ends[of s] by auto
qed

lemma no_fence_no_json_fence: "\<not> startswith s ''```'' \<Longrightarrow> \<not> startswith s ''```json''"
proof
  assume no: "\<not> startswith s ''```''" and "startswith s ''```json''"
  then obtain r where "s = ''```json'' @ r"
    by (auto simp: startswith_iff)
  then have "s = ''```'' @ (''json'' @ r)"
    by simp
  then have "startswith s ''```''"
    by (simp only: startswith_append)
  with no show False ..
qed

lemma json_str_of_plain:
  assumes "\<not> startswith (strip response) ''```''" "\<not> endswith (strip response) ''```''"
  shows "json_str_of response = strip response"
  using assms no_fence_no_json_fence[OF assms(1)]
  by (simp add: json_str_of_def strip_strip)

lemma json_str_of_json_fence:
  assumes "list_all isspace pre" "list_all isspace post" "\<not> startswith (body @ ''```'') ''```''"
  shows "json_str_of (pre @ ''```json'' @ body @ ''```'' @ post) = strip body"
proof -
  have "strip (pre @ (''```json'' @ body @ ''```'') @ post) = ''```json'' @ body @ ''```''"
    using assms(1,2) by (intro strip_spaces_around) simp_all
  then have s0: "strip (pre @ ''```json'' @ body @ ''```'' @ post) = ''```json'' @ (body @ ''```'')"
    by simp
  have s1: "drop 7 (''```json'' @ (body @ ''```'')) = body @ ''```''"
    by simp
  have s3: "take (length (body @ ''```'') - 3) (body @ ''```'') = body"
    by simp
  show ?thesis
    unfolding json_str_of_def Let_def s0
    using assms(3) by (simp only: startswith_append endswith_append s1 s3 if_True if_False)
qed

lemma json_str_of_fence:
  assumes "list_all isspace pre" "list_all isspace post" "\<not> startswith (body @ ''```'') ''```''"
    "\<not> startswith body ''json''"
  shows "json_str_of (pre @ ''```'' @ body @ ''```'' @ post) = strip body"
proof -
  have "strip (pre @ (''```'' @ body @ ''```'') @ post) = ''```'' @ body @ ''```''"
    using assms(1,2) by (intro strip_spaces_around) simp_all
  then have s0: "strip (pre @ ''```'' @ body @ ''```'' @ post) = ''```'' @ (body @ ''```'')"
    by simp
  have tag: "\<not> startswith (''```'' @ (body @ ''```'')) ''```json''"
  proof
    assume "startswith (''```'' @ (body @ ''```'')) ''```json''"
    then obtain r where "''```'' @ (body @ ''```'') = ''```json'' @ r"
      by (auto simp: startswith_iff)
    then have "body @ ''```'' = ''json'' @ r"
      by simp
    then have "take 4 (body @ ''```'') = ''json''"
      by simp
    then have "take 4 body = ''json''"
      by (cases body rule: list.exhaust; simp) (auto simp: take_Cons' split: if_splits list.splits)
    then have "take (length ''json'') body = ''json''"
      by (simp add: eval_nat_numeral)
    with assms(4) show False
      unfolding startswith_def by (rule notE)
  qed
  have s2: "drop 3 (''```'' @ (body @ ''```'')) = body @ ''```''"
    by simp
  have s3: "take (length (body @ ''```'') - 3) (body @ ''```'') = body"
    by simp
  show ?thesis
    unfolding json_str_of_def Let_def s0
    using assms(3) tag by (simp only: startswith_append endswith_append s2 s3 if_True if_False)
qed

lemma dict_get_None_iff: "dict_get d k = None \<longleftrightarrow> k \<notin> fst ` set d"
  by (simp add: dict_get_def map_of_eq_None_iff)

lemma extract_Some_iff:
  "extract_json_from_response loads response = Some d \<longleftrightarrow>
     startswith (json_str_of response) ''{'' \<and> loads (json_str_of response) = Inr (JObj d)
     \<and> ''action'' \<in> fst ` set d"
proof (cases "startswith (json_str_of response) ''{''")
  case False
  then show ?thesis by (simp add: extract_json_from_response_def)
next
  case True
  show ?thesis
  proof (cases "loads (json_str_of response)")
    case (Inl e)
    with True show ?thesis by (simp add: extract_json_from_response_def)
  next
    case (Inr v)
    with True show ?thesis
      by (cases v) (auto simp: extract_json_from_response_def dict_get_None_iff)
  qed
qed

lemma extract_no_brace:
  "\<not> startswith (json_str_of response) ''{'' \<Longrightarrow> extract_json_from_response loads response = None"
  by (simp add: extract_json_from_response_def)

lemma extract_parse_failure:
  "loads (json_str_of response) = Inl e \<Longrightarrow> extract_json_from_response loads response = None"
  by (simp add: extract_json_from_response_def Let_def)

text \<open>The fence markers at the head of a stripped text: the four cases cover every text.\<close>

lemma leading_fence_cases:
  "s0 = ''```json'' @ ''```'' @ (drop 10 s0)
   \<or> (s0 = ''```json'' @ drop 7 s0 \<and> (\<forall>x. drop 7 s0 \<noteq> ''```'' @ x))
   \<or> (s0 = ''```'' @ drop 3 s0 \<and> (\<forall>x. drop 3 s0 \<noteq> ''json'' @ x))
   \<or> (\<forall>x. s0 \<noteq> ''```'' @ x)"
proof (cases "\<exists>x. s0 = ''```'' @ x")
  case False
  then show ?thesis by blast
next
  case True
  then obtain x where x: "s0 = ''```'' @ x" ..
  show ?thesis
  proof (cases "\<exists>y. x = ''json'' @ y")
    case False
    with x show ?thesis by simp
  next
    case True
    then obtain y where y: "x = ''json'' @ y" ..
    show ?thesis
    proof (cases "\<exists>z. y = ''```'' @ z")
      case False
      with x y show ?thesis by simp
    next
      case True
      then obtain z where "y = ''```'' @ z" ..
      with x y show ?thesis by simp
    qed
  qed
qed

lemma leading_fence_exhaustive:
  "\<exists>m. s0 = ''```json'' @ ''```'' @ m
     \<or> (s0 = ''```json'' @ m \<and> (\<forall>x. m \<noteq> ''```'' @ x))
     \<or> (s0 = ''```'' @ m \<and> (\<forall>x. m \<noteq> ''json'' @ x))
     \<or> (s0 = m \<and> (\<forall>x. m \<noteq> ''```'' @ x))"
  using leading_fence_cases[of s0] by (elim disjE) blast+

lemma not_startswith_iff: "\<not> startswith s p \<longleftrightarrow> (\<forall>x. s \<noteq> p @ x)"
  by (simp add: startswith_iff)

lemma json_str_of_after_lead:
  assumes "strip response = ''```json'' @ ''```'' @ m
     \<or> (strip response = ''```json'' @ m \<and> (\<forall>x. m \<noteq> ''```'' @ x))
     \<or> (strip response = ''```'' @ m \<and> (\<forall>x. m \<noteq> ''json'' @ x))
     \<or> (strip response = m \<and> (\<forall>x. m \<noteq> ''```'' @ x))"
  shows "json_str_of response = strip (if endswith m ''```'' then take (length m - 3) m else m)"
  using assms
proof (elim disjE conjE)
  assume s0: "strip response = ''```json'' @ ''```'' @ m"
  have a: "startswith (''```json'' @ (''```'' @ m)) ''```json''"
    by (rule startswith_append)
  have b: "drop 7 (''```json'' @ (''```'' @ m)) = ''```'' @ m"
    by simp
  have c: "startswith (''```'' @ m) ''```''"
    by (rule startswith_append)
  have d: "drop 3 (''```'' @ m) = m"
    by simp
  show ?thesis
    unfolding json_str_of_def Let_def s0 by (simp only: a b c d if_True)
next
  assume s0: "strip response = ''```json'' @ m" and no: "\<forall>x. m \<noteq> ''```'' @ x"
  have a: "startswith (''```json'' @ m) ''```json''"
    by (rule startswith_append)
  have b: "drop 7 (''```json'' @ m) = m"
    by simp
  have c: "\<not> startswith m ''```''"
    unfolding not_startswith_iff by (rule no)
  show ?thesis
    unfolding json_str_of_def Let_def s0 using c by (simp only: a b if_True if_False)
next
  assume s0: "strip response = ''```'' @ m" and no: "\<forall>x. m \<noteq> ''json'' @ x"
  have a: "\<not> startswith (''```'' @ m) ''```json''"
  proof
    assume "startswith (''```'' @ m) ''```json''"
    then obtain r where "''```'' @ m = ''```json'' @ r"
      by (auto simp: startswith_iff)
    then have "m = ''json'' @ r"
      by simp
    with no show False by blast
  qed
  have c: "startswith (''```'' @ m) ''```''"
    by (rule startswith_append)
  have d: "drop 3 (''```'' @ m) = m"
    by simp
  show ?thesis
    unfolding json_str_of_def Let_def s0 using a by (simp only: c d if_True if_False)
next
  assume s0: "strip response = m" and no: "\<forall>x. m \<noteq> ''```'' @ x"
  have c: "\<not> startswith m ''```''"
    unfolding not_startswith_iff by (rule no)
  have a: "\<not> startswith m ''```json''"
    using c by (rule no_fence_no_json_fence)
  show ?thesis
    unfolding json_str_of_def Let_def s0 using a c by (simp only: if_False)
qed

lemma json_str_of_fences:
  assumes "strip response = ''```json'' @ ''```'' @ m
     \<or> (strip response = ''```json'' @ m \<and> (\<forall>x. m \<noteq> ''```'' @ x))
     \<or> (strip response = ''```'' @ m \<and> (\<forall>x. m \<noteq> ''json'' @ x))
     \<or> (strip response = m \<and> (\<forall>x. m \<noteq> ''```'' @ x))"
  shows "(\<forall>r. m = r @ ''```'' \<longrightarrow> json_str_of response = strip r)
       \<and> ((\<forall>r. m \<noteq> r @ ''```'') \<longrightarrow> json_str_of response = strip m)"
proof (intro conjI allI impI)
  fix r assume "m = r @ ''```''"
  then show "json_str_of response = strip r"
    using json_str_of_after_lead[OF assms] by simp
next
  assume "\<forall>r. m \<noteq> r @ ''```''"
  then have "\<not> endswith m ''```''"
    by (simp add: endswith_iff)
  then show "json_str_of response = strip m"
    using json_str_of_after_lead[OF assms] by simp
qed

text \<open>
  C7. For every model output and whatever \<open>json.loads\<close> does. The text handed
  to the parser has no surrounding whitespace. Every output, once stripped, falls
  under one of four cases at its head: \<open>```json\<close> directly followed by \<open>```\<close> (both
  go), \<open>```json\<close> alone, \<open>```\<close> without the tag, or no marker; in each case the
  rest \<open>m\<close> loses one trailing \<open>```\<close> if it ends with one, and the result is stripped
  again. This fixes the cleaned text of every output; a marker on one side only is
  removed like a pair. The parser is consulted only when the cleaned text begins
  with an opening brace (otherwise the result is no action, whatever the parser
  would do); a parse that raises gives no action; and an object is returned exactly
  when the parse yields a mapping with an \<open>action\<close> key. The extractor is a total
  function into \<open>dict option\<close>: it never raises.
\<close>

theorem extract_json_from_response_spec:
  "(json_str_of response = [] \<or>
      \<not> isspace (hd (json_str_of response)) \<and> \<not> isspace (last (json_str_of response)))
   \<and> (\<exists>m. strip response = ''```json'' @ ''```'' @ m
          \<or> (strip response = ''```json'' @ m \<and> (\<forall>x. m \<noteq> ''```'' @ x))
          \<or> (strip response = ''```'' @ m \<and> (\<forall>x. m \<noteq> ''json'' @ x))
          \<or> (strip response = m \<and> (\<forall>x. m \<noteq> ''```'' @ x)))
   \<and> (strip response = ''```json'' @ ''```'' @ m
          \<or> (strip response = ''```json'' @ m \<and> (\<forall>x. m \<noteq> ''```'' @ x))
          \<or> (strip response = ''```'' @ m \<and> (\<forall>x. m \<noteq> ''json'' @ x))
          \<or> (strip response = m \<and> (\<forall>x. m \<noteq> ''```'' @ x)) \<longrightarrow>
        (\<forall>r. m = r @ ''```'' \<longrightarrow> json_str_of response = strip r)
        \<and> ((\<forall>r. m \<noteq> r @ ''```'') \<longrightarrow> json_str_of response = strip m))
   \<and> (\<not> startswith (strip response) ''```'' \<and> \<not> endswith (strip response) ''```'' \<longrightarrow>
        json_str_of response = strip response)
   \<and> (list_all isspace pre \<and> list_all isspace post \<and> \<not> startswith (body @ ''```'') ''```'' \<longrightarrow>
        json_str_of (pre @ ''```json'' @ body @ ''```'' @ post) = strip body
        \<and> (\<not> startswith body ''json'' \<longrightarrow>
             json_str_of (pre @ ''```'' @ body @ ''```'' @ post) = strip body))
   \<and> (\<not> startswith (json_str_of response) ''{'' \<longrightarrow>
        extract_json_from_response loads response = None)
   \<and> (loads (json_str_of response) = Inl e \<longrightarrow>
        extract_json_from_response loads response = None)
   \<and> (extract_json_from_response loads response = Some d \<longleftrightarrow>
        startswith (json_str_of response) ''{'' \<and> loads (json_str_of response) = Inr (JObj d)
        \<and> ''action'' \<in> fst ` set d)"
proof (intro conjI impI)
  show "json_str_of response = [] \<or>
      \<not> isspace (hd (json_str_of response)) \<and> \<not> isspace (last (json_str_of response))"
    by (rule json_str_of_ends)
next
  show "\<exists>m. strip response = ''```json'' @ ''```'' @ m
          \<or> (strip response = ''```json'' @ m \<and> (\<forall>x. m \<noteq> ''```'' @ x))
          \<or> (strip response = ''```'' @ m \<and> (\<forall>x. m \<noteq> ''json'' @ x))
          \<or> (strip response = m \<and> (\<forall>x. m \<noteq> ''```'' @ x))"
    by (rule leading_fence_exhaustive)
next
  assume lead: "strip response = ''```json'' @ ''```'' @ m
          \<or> (strip response = ''```json'' @ m \<and> (\<forall>x. m \<noteq> ''```'' @ x))
          \<or> (strip response = ''```'' @ m \<and> (\<forall>x. m \<noteq> ''json'' @ x))
          \<or> (strip response = m \<and> (\<forall>x. m \<noteq> ''```'' @ x))"
  from json_str_of_fences[OF lead]
  show "\<forall>r. m = r @ ''```'' \<longrightarrow> json_str_of response = strip r"
    by (rule conjunct1)
next
  assume lead: "strip response = ''```json'' @ ''```'' @ m
          \<or> (strip response = ''```json'' @ m \<and> (\<forall>x. m \<noteq> ''```'' @ x))
          \<or> (strip response = ''```'' @ m \<and> (\<forall>x. m \<noteq> ''json'' @ x))
          \<or> (strip response = m \<and> (\<forall>x. m \<noteq> ''```'' @ x))"
    and none: "\<forall>r. m \<noteq> r @ ''```''"
  from json_str_of_fences[OF lead] none
  show "json_str_of response = strip m"
    by (elim conjE impE) assumption+
next
  assume "\<not> startswith (strip response) ''```'' \<and> \<not> endswith (strip response) ''```''"
  then show "json_str_of response = strip response"
    by (elim conjE) (rule json_str_of_plain)
next
  assume "list_all isspace pre \<and> list_all isspace post \<and> \<not> startswith (body @ ''```'') ''```''"
  then show "json_str_of (pre @ ''```json'' @ body @ ''```'' @ post) = strip body"
    by (elim conjE) (rule json_str_of_json_fence)
next
  assume "list_all isspace pre \<and> list_all isspace post \<and> \<not> startswith (body @ ''```'') ''```''"
    and "\<not> startswith body ''json''"
  then show "json_str_of (pre @ ''```'' @ body @ ''```'' @ post) = strip body"
    by (elim conjE) (rule json_str_of_fence)
next
  assume "\<not> startswith (json_str_of response) ''{''"
  then show "extract_json_from_response loads response = None"
    by (rule extract_no_brace)
next
  assume "loads (json_str_of response) = Inl e"
  then show "extract_json_from_response loads response = None"
    by (rule extract_parse_failure)
next
  show "extract_json_from_response loads response = Some d \<longleftrightarrow>
        startswith (json_str_of response) ''{'' \<and> loads (json_str_of response) = Inr (JObj d)
        \<and> ''action'' \<in> fst ` set d"
    by (rule extract_Some_iff)
qed

theorem extract_json_from_response_spec_witness:
  "json_str_of fenced_response = ''{cancel}''
   \<and> extract_json_from_response example_loads fenced_response
       = Some [(''action'', JStr ''cancel'')]
   \<and> json_str_of ''{cancel}```'' = ''{cancel}''
   \<and> extract_json_from_response example_loads ''{cancel}```''
       = Some [(''action'', JStr ''cancel'')]
   \<and> json_str_of ''```json{cancel}'' = ''{cancel}''
   \<and> extract_json_from_response example_loads ''```json{cancel}''
       = Some [(''action'', JStr ''cancel'')]
   \<and> extract_json_from_response example_loads ''Just a regular reply'' = None
   \<and> example_loads (json_str_of ''{oops'') = Inl JSONDecodeError
   \<and> extract_json_from_response example_loads ''{oops'' = None"
proof -
  have sp: "list_all isspace ''  ''" "list_all isspace [CHR 0x0A]"
    by (simp_all add: isspace_def)
  have nf: "\<not> startswith (fenced_body @ ''```'') ''```''"
    by (simp add: fenced_body_def startswith_def)
  have body: "strip fenced_body = ''{cancel}''"
    by code_simp
  have clean: "json_str_of fenced_response = ''{cancel}''"
    using extract_json_from_response_spec[where pre = "''  ''" and post = "[CHR 0x0A]"
        and body = fenced_body] sp nf body
    by (simp add: fenced_response_def)
  have brace: "startswith ''{cancel}'' ''{''"
    by (simp add: startswith_def)
  have found: "extract_json_from_response example_loads fenced_response
       = Some [(''action'', JStr ''cancel'')]"
    using extract_json_from_response_spec[where response = fenced_response
        and loads = example_loads and d = "[(''action'', JStr ''cancel'')]"] clean brace
    by (simp add: example_loads_def)
  have same: "strip ''{cancel}'' = ''{cancel}''" "strip ''{cancel}```'' = ''{cancel}```''"
    "strip ''```json{cancel}'' = ''```json{cancel}''"
    by code_simp+
  have nohead: "\<forall>x. ''{cancel}```'' \<noteq> ''```'' @ x" "\<forall>x. ''{cancel}'' \<noteq> ''```'' @ x"
    by simp_all
  have "\<not> endswith ''{cancel}'' ''```''"
    by (simp add: endswith_def)
  then have notail: "\<forall>r. ''{cancel}'' \<noteq> r @ ''```''"
    by (simp add: endswith_iff)
  have lone_tail: "json_str_of ''{cancel}```'' = ''{cancel}''"
    using extract_json_from_response_spec[where response = "''{cancel}```''"
        and m = "''{cancel}```''"] same nohead
    by simp
  have lone_head: "json_str_of ''```json{cancel}'' = ''{cancel}''"
    using extract_json_from_response_spec[where response = "''```json{cancel}''"
        and m = "''{cancel}''"] same nohead notail
    by simp
  have found_tail: "extract_json_from_response example_loads ''{cancel}```''
       = Some [(''action'', JStr ''cancel'')]"
    using extract_json_from_response_spec[where response = "''{cancel}```''"
        and loads = example_loads and d = "[(''action'', JStr ''cancel'')]"] lone_tail brace
    by (simp add: example_loads_def)
  have found_head: "extract_json_from_response example_loads ''```json{cancel}''
       = Some [(''action'', JStr ''cancel'')]"
    using extract_json_from_response_spec[where response = "''```json{cancel}''"
        and loads = example_loads and d = "[(''action'', JStr ''cancel'')]"] lone_head brace
    by (simp add: example_loads_def)
  have plain: "\<not> startswith (json_str_of ''Just a regular reply'') ''{''"
    by code_simp
  have none: "extract_json_from_response example_loads ''Just a regular reply'' = None"
    using extract_json_from_response_spec[where response = "''Just a regular reply''"
        and loads = example_loads] plain
    by simp
  have bad: "example_loads (json_str_of ''{oops'') = Inl JSONDecodeError"
    by code_simp
  have fails: "extract_json_from_response example_loads ''{oops'' = None"
    using extract_json_from_response_spec[where response = "''{oops''"
        and loads = example_loads and e = JSONDecodeError] bad
    by simp
  from clean found lone_tail found_tail lone_head found_head none bad fails
  show ?thesis by simp
qed

subsection \<open>Steps of the handler\<close>

lemma then_step_Next [simp]: "then_step (Next x, w) f = f x w"
  and then_step_Return [simp]: "then_step (Return r, w) f = (Return r, w)"
  and then_step_Raise [simp]: "then_step (Raise e, w) f = (Raise e, w)"
  by (simp_all add: then_step_def)

lemma validate_user_id_Inr: "validate_user_id x = Inr u \<Longrightarrow> 1 \<le> length u"
  by (cases u) (auto simp: validate_user_id_def split: option.splits if_splits)

lemma extract_user_id_nonempty: "extract_user_id_from_event ev = Inr u \<Longrightarrow> 1 \<le> length u"
  unfolding extract_user_id_from_event_def by (rule validate_user_id_Inr)

text \<open>The rate check either leaves the world as it is or puts one rate record.\<close>

lemma update_rate_limit_outcome:
  "update_rate_limit env r w = (x, w') \<Longrightarrow>
     (\<exists>e. x = Raise e \<and> w' = w) \<or>
     (x = Next () \<and> w' = w\<lparr>rate_limits := (rate_limits w)(rl_user_id r \<mapsto> r),
                             trace := trace w @ [Put_rate_limit r]\<rparr>)"
  by (auto simp: update_rate_limit_def split: option.splits)

lemma start_new_window_outcome:
  "start_new_window env u w = (x, w') \<Longrightarrow>
     (\<exists>e. x = Raise e \<and> w' = w) \<or>
     (\<exists>r. x = Next () \<and> w' = w\<lparr>rate_limits := (rate_limits w)(rl_user_id r \<mapsto> r),
                             trace := trace w @ [Put_rate_limit r]\<rparr>)"
  by (auto simp: start_new_window_def split: sum.splits dest!: update_rate_limit_outcome)

lemma rate_limit_check_outcome:
  assumes "rate_limit_check env u w = (x, w')"
  shows "(\<exists>e. x = Raise e \<and> w' = w) \<or> (x = Return (Error_response 429 ''RateLimitExceeded'') \<and> w' = w) \<or>
     (\<exists>r. x = Next () \<and> w' = w\<lparr>rate_limits := (rate_limits w)(rl_user_id r \<mapsto> r),
                             trace := trace w @ [Put_rate_limit r]\<rparr>)"
proof (cases "raised env Op_get_rate_limit")
  case (Some e)
  with assms show ?thesis
    by (auto simp: rate_limit_check_def get_rate_limit_def)
next
  case None
  show ?thesis
  proof (cases "rate_limits w u")
    case no: None
    with assms None have "start_new_window env u w = (x, w')"
      by (simp add: rate_limit_check_def get_rate_limit_def)
    from start_new_window_outcome[OF this] show ?thesis by blast
  next
    case (Some r)
    show ?thesis
    proof (cases "is_expired (utcnow env) r")
      case True
      with assms None Some have "start_new_window env u w = (x, w')"
        by (simp add: rate_limit_check_def get_rate_limit_def)
      from start_new_window_outcome[OF this] show ?thesis by blast
    next
      case False
      show ?thesis
      proof (cases "check_limit (utcnow env) (max_requests env) (window_seconds env)
                      (request_count r) (window_start r)")
        case True
        with assms None Some False
        have "update_rate_limit env (r\<lparr>request_count := request_count r + 1\<rparr>) w = (x, w')"
          by (simp add: rate_limit_check_def get_rate_limit_def)
        from update_rate_limit_outcome[OF this] show ?thesis by blast
      next
        case no: False
        with assms None Some False show ?thesis
          by (auto simp: rate_limit_check_def get_rate_limit_def)
      qed
    qed
  qed
qed

lemma rate_limit_check_frame:
  assumes "rate_limit_check env u w = (x, w')"
  shows "conversations w' = conversations w" "invoices w' = invoices w"
    "subscriptions w' = subscriptions w"
  using rate_limit_check_outcome[OF assms] by auto

lemma raised_None [simp]: "fault env op = None \<Longrightarrow> raised env op = None"
  by (simp add: raised_def)

lemma raised_Some:
  "fault env op = Some f \<Longrightarrow>
     raised env op = Some (if f = ClientError then DynamoDBException else EndpointConnectionError)"
  by (cases f) (simp_all add: raised_def)

subsection \<open>An empty message on a new conversation\<close>

lemma first_user:
  "extract_user_id_from_event (first_event\<lparr>body_message := m, body_conversation_id := k\<rparr>)
     = Inr ''user-1''"
  by (simp add: first_event_def extract_user_id_from_event_def validate_user_id_def
        user_id_pattern_def user_id_char_def)

lemma first_rate:
  "rate_limits w ''user-1'' = None \<Longrightarrow>
   rate_limit_check quiet_env ''user-1'' w =
     (Next (), w\<lparr>rate_limits := (rate_limits w)(''user-1'' \<mapsto> first_window),
                    trace := trace w @ [Put_rate_limit first_window]\<rparr>)"
  by (simp add: rate_limit_check_def get_rate_limit_def start_new_window_def
        RateLimit_create_new_def update_rate_limit_def quiet_env_def raised_def first_window_def
        now_example_def)

text \<open>
  C10. An authenticated request that passes the rate check, names no conversation
  (the key is absent or empty) and carries a message that is empty once trimmed:
  the handler answers 400 \<open>ValidationError\<close>, and the store, which accepted the
  write, now holds a new conversation of that user in state \<open>INITIATED\<close> with no
  messages. Apart from the rate record of the check, that put is the only effect
  of the turn.
\<close>

theorem empty_message_leaves_conversation:
  assumes u: "extract_user_id_from_event ev = Inr u" and len: "length u \<le> 256"
    and rate: "rate_limit_check env u w = (Next (), w1)"
    and new: "body_conversation_id ev = None \<or> body_conversation_id ev = Some []"
    and empty: "strip (case body_message ev of None \<Rightarrow> [] | Some m \<Rightarrow> m) = []"
    and store: "fault env Op_create_conversation = None"
  shows "handler env ev w =
     (Error_response 400 ''ValidationError'',
      w1\<lparr>conversations := (conversations w1)(new_conversation_id env \<mapsto>
             \<lparr>conversation_id = new_conversation_id env, user_id = u, state = INITIATED,
              messages = [], extracted_data = None, created_at = utcnow env,
              updated_at = utcnow env\<rparr>),
         trace := trace w1 @ [Put_conversation
             \<lparr>conversation_id = new_conversation_id env, user_id = u, state = INITIATED,
              messages = [], extracted_data = None, created_at = utcnow env,
              updated_at = utcnow env\<rparr>]\<rparr>)"
proof -
  let ?c = "\<lparr>conversation_id = new_conversation_id env, user_id = u, state = INITIATED,
              messages = [], extracted_data = None, created_at = utcnow env,
              updated_at = utcnow env\<rparr>"
  let ?w2 = "w1\<lparr>conversations := (conversations w1)(new_conversation_id env \<mapsto> ?c),
                trace := trace w1 @ [Put_conversation ?c]\<rparr>"
  have init: "Conversation_init (utcnow env) (new_conversation_id env) u = Inr ?c"
    using extract_user_id_nonempty[OF u] len by (simp add: Conversation_init_def)
  have put: "create_conversation env ?c w1 = (Next (), ?w2)"
    using store by (simp add: create_conversation_def put_conversation_def serializable_def)
  have conv: "get_or_create_conversation env ev u w1 = (Next ?c, ?w2)"
    using new init put by (auto simp: get_or_create_conversation_def)
  have msg: "user_message_of env ev ?w2 = (Return (Error_response 400 ''ValidationError''), ?w2)"
    using empty by (simp add: user_message_of_def)
  show ?thesis
    by (simp add: handler_def handler_body_def u rate conv msg)
qed

theorem empty_message_leaves_conversation_witness:
  "fst (handler quiet_env (first_event\<lparr>body_message := Some ''   '', body_conversation_id := None\<rparr>) empty_world)
     = Error_response 400 ''ValidationError''
   \<and> map_option state (conversations (snd (handler quiet_env
        (first_event\<lparr>body_message := Some ''   '', body_conversation_id := None\<rparr>) empty_world)) ''c-1'')
     = Some INITIATED
   \<and> map_option messages (conversations (snd (handler quiet_env
        (first_event\<lparr>body_message := Some ''   '', body_conversation_id := None\<rparr>) empty_world)) ''c-1'')
     = Some []"
proof -
  let ?ev = "first_event\<lparr>body_message := Some ''   '', body_conversation_id := None\<rparr>"
  have len: "length ''user-1'' \<le> 256"
    by simp
  have rate: "rate_limit_check quiet_env ''user-1'' empty_world =
     (Next (), empty_world\<lparr>rate_limits := (rate_limits empty_world)(''user-1'' \<mapsto> first_window),
                        trace := trace empty_world @ [Put_rate_limit first_window]\<rparr>)"
    by (rule first_rate) (simp add: empty_world_def)
  have new: "body_conversation_id ?ev = None \<or> body_conversation_id ?ev = Some []"
    by simp
  have empty: "strip (case body_message ?ev of None \<Rightarrow> [] | Some m \<Rightarrow> m) = []"
    by (simp add: strip_def lstrip_def rstrip_def isspace_def)
  have store: "fault quiet_env Op_create_conversation = None"
    by (simp add: quiet_env_def)
  note turn = empty_message_leaves_conversation[OF first_user len rate new empty store]
  show ?thesis
    unfolding turn by (simp add: quiet_env_def)
qed

subsection \<open>A conversation of another user\<close>

text \<open>
  C9. An authenticated request that passes the rate check and names a stored
  conversation whose owner is another user: the handler answers 403 \<open>Forbidden\<close>,
  and the final store is the one the rate check left, which is the initial store
  plus the one rate record the check wrote. No conversation, invoice or
  subscription item is touched, no message is appended and the model is not
  called: the trace of effects grows by the rate put alone.
\<close>

theorem foreign_conversation_forbidden:
  assumes u: "extract_user_id_from_event ev = Inr u"
    and rate: "rate_limit_check env u w = (Next (), w1)"
    and cid: "body_conversation_id ev = Some cid" "cid \<noteq> []"
    and store: "fault env Op_get_conversation = None"
    and found: "conversations w cid = Some c"
    and other: "user_id c \<noteq> u"
  shows "handler env ev w = (Error_response 403 ''Forbidden'', w1)
     \<and> (\<exists>r. w1 = w\<lparr>rate_limits := (rate_limits w)(rl_user_id r \<mapsto> r),
                     trace := trace w @ [Put_rate_limit r]\<rparr>)"
proof
  have "conversations w1 cid = Some c"
    using rate_limit_check_frame(1)[OF rate] found by simp
  then have conv: "get_or_create_conversation env ev u w1 = (Return (Error_response 403 ''Forbidden''), w1)"
    using cid store other by (simp add: get_or_create_conversation_def get_conversation_def)
  show "handler env ev w = (Error_response 403 ''Forbidden'', w1)"
    by (simp add: handler_def handler_body_def u rate conv)
next
  from rate_limit_check_outcome[OF rate]
  show "\<exists>r. w1 = w\<lparr>rate_limits := (rate_limits w)(rl_user_id r \<mapsto> r),
                     trace := trace w @ [Put_rate_limit r]\<rparr>"
    by simp
qed

theorem foreign_conversation_forbidden_witness:
  "handler quiet_env (first_event\<lparr>body_message := Some ''Invoice Acme please'',
                                 body_conversation_id := Some ''c-9''\<rparr>) others_world
     = (Error_response 403 ''Forbidden'',
        others_world\<lparr>rate_limits := [''user-1'' \<mapsto> first_window],
                      trace := [Put_rate_limit first_window]\<rparr>)"
proof -
  let ?ev = "first_event\<lparr>body_message := Some ''Invoice Acme please'',
                         body_conversation_id := Some ''c-9''\<rparr>"
  have rate: "rate_limit_check quiet_env ''user-1'' others_world =
     (Next (), others_world\<lparr>rate_limits := (rate_limits others_world)(''user-1'' \<mapsto> first_window),
                        trace := trace others_world @ [Put_rate_limit first_window]\<rparr>)"
    by (rule first_rate) (simp add: others_world_def empty_world_def)
  have cid: "body_conversation_id ?ev = Some ''c-9''" "''c-9'' \<noteq> []"
    by simp_all
  have store: "fault quiet_env Op_get_conversation = None"
    by (simp add: quiet_env_def)
  have found: "conversations others_world ''c-9'' = Some others_conversation"
    by (simp add: others_world_def)
  have other: "user_id others_conversation \<noteq> ''user-1''"
    by (simp add: others_conversation_def)
  note turn = foreign_conversation_forbidden[OF first_user rate cid store found other, THEN conjunct1]
  show ?thesis
    unfolding turn by (simp add: others_world_def empty_world_def)
qed

subsection \<open>A store failure during the rate check\<close>

text \<open>
  C3. A first request of \<open>user-1\<close>, while the store rejects the read of the rate
  record, or rejects its write, or cannot be reached: the handler does not go on
  with the turn. It answers 500 (\<open>DatabaseError\<close> when the helper turned the
  failure into its \<open>DynamoDBException\<close>, \<open>InternalError\<close> otherwise), and nothing is
  stored and the model is not called.
\<close>

theorem rate_check_store_failure_stops_turn:
  "handler failing_read_env first_event empty_world
     = (Error_response 500 ''DatabaseError'', empty_world)
   \<and> handler failing_write_env first_event empty_world
     = (Error_response 500 ''DatabaseError'', empty_world)
   \<and> handler unreachable_env first_event empty_world
     = (Error_response 500 ''InternalError'', empty_world)"
proof (intro conjI)
  have u: "extract_user_id_from_event first_event = Inr ''user-1''"
    by (simp add: first_event_def extract_user_id_from_event_def validate_user_id_def
          user_id_pattern_def user_id_char_def)
  show "handler failing_read_env first_event empty_world
     = (Error_response 500 ''DatabaseError'', empty_world)"
    by (simp add: handler_def handler_body_def u rate_limit_check_def get_rate_limit_def
          raised_def failing_read_env_def quiet_env_def)
  show "handler failing_write_env first_event empty_world
     = (Error_response 500 ''DatabaseError'', empty_world)"
    by (simp add: handler_def handler_body_def u rate_limit_check_def get_rate_limit_def
          start_new_window_def RateLimit_create_new_def update_rate_limit_def
          raised_def failing_write_env_def quiet_env_def empty_world_def)
  show "handler unreachable_env first_event empty_world
     = (Error_response 500 ''InternalError'', empty_world)"
    by (simp add: handler_def handler_body_def u rate_limit_check_def get_rate_limit_def
          raised_def unreachable_env_def quiet_env_def)
qed

subsection \<open>The turn\<close>









subsection \<open>What each store call leaves behind\<close>







text \<open>No call of the helper returns from the handler.\<close>

lemma helper_no_Return [simp]:
  "put_conversation env op c w \<noteq> (Return r, w')"
  "update_conversation env c w \<noteq> (Return r, w')"
  "create_invoice env i w \<noteq> (Return r, w')"
  "increment_monthly_invoice_count env u w \<noteq> (Return r, w')"
  "check_and_reset_monthly_count env u w \<noteq> (Return r, w')"
  by (auto simp: put_conversation_def update_conversation_def create_invoice_def
        increment_monthly_invoice_count_def check_and_reset_monthly_count_def Let_def
        split: option.splits if_splits)

subsection \<open>The state a turn saves\<close>













subsection \<open>When the user message reaches the store\<close>







end
